theory Spec2Isabelle
  imports Main
begin

section \<open>Python strings\<close>

text \<open>
  A Python \<open>str\<close> is a sequence of Unicode code points, so a character is modelled by
  its code point and a string by the list of them. (An 8-bit \<open>char\<close> cannot hold the
  byte-order mark U+FEFF that \<open>clean_text\<close> strips.) \<open>asc\<close> embeds an ASCII literal.
\<close>

type_synonym uchar = nat
type_synonym ustr = "uchar list"

definition asc :: "string \<Rightarrow> ustr" where
  "asc s = map of_char s"

definition BOM :: uchar where "BOM = 0xFEFF"
definition PIPE :: uchar where "PIPE = 124"
definition COMMA :: uchar where "COMMA = 44"
definition SQUOTE :: uchar where "SQUOTE = 39"
definition NL :: uchar where "NL = 10"
definition MINUS :: uchar where "MINUS = 45"
definition PLUS :: uchar where "PLUS = 43"
definition UNDERSCORE :: uchar where "UNDERSCORE = 95"

text \<open>\<open>s.strip(chars)\<close>: every leading and every trailing character that is in \<open>chars\<close>
  is removed, not only one on each side.\<close>

definition lstrip_chars :: "ustr \<Rightarrow> ustr \<Rightarrow> ustr" where
  "lstrip_chars chars s = dropWhile (\<lambda>c. c \<in> set chars) s"

definition rstrip_chars :: "ustr \<Rightarrow> ustr \<Rightarrow> ustr" where
  "rstrip_chars chars s = rev (dropWhile (\<lambda>c. c \<in> set chars) (rev s))"

definition strip_chars :: "ustr \<Rightarrow> ustr \<Rightarrow> ustr" where
  "strip_chars chars s = rstrip_chars chars (lstrip_chars chars s)"

text \<open>\<open>s.split(sep)\<close> for a one-character separator: the result always has one more
  element than \<open>s\<close> has separators (\<open>''.split('|') == ['']\<close>).\<close>

fun split_on :: "uchar \<Rightarrow> ustr \<Rightarrow> ustr list" where
  "split_on sep [] = [[]]"
| "split_on sep (c # cs) =
     (if c = sep then [] # split_on sep cs
      else (case split_on sep cs of
              [] \<Rightarrow> [[c]]
            | f # fs \<Rightarrow> (c # f) # fs))"

text \<open>\<open>s.replace(old, '')\<close> for a one-character \<open>old\<close>.\<close>

definition remove_char :: "uchar \<Rightarrow> ustr \<Rightarrow> ustr" where
  "remove_char c s = filter (\<lambda>x. x \<noteq> c) s"

text \<open>\<open>s.splitlines()\<close>: the line boundaries of \<open>str.splitlines\<close> are LF, CR, CR LF,
  VT, FF, FS, GS, RS, NEL, LS and PS; the boundaries are dropped and a final boundary
  opens no empty last line.\<close>

definition CR :: uchar where "CR = 13"

definition is_linebreak :: "uchar \<Rightarrow> bool" where
  "is_linebreak c = (c \<in> set [10, 11, 12, 13, 28, 29, 30, 133, 8232, 8233])"

fun splitlines_from :: "ustr \<Rightarrow> ustr \<Rightarrow> ustr list" where
  "splitlines_from cur [] = (if cur = [] then [] else [rev cur])"
| "splitlines_from cur (c # cs) =
     (if is_linebreak c then
        (if c = CR then
           (case cs of
              [] \<Rightarrow> [rev cur]
            | d # ds \<Rightarrow> if d = NL then rev cur # splitlines_from [] ds
                        else rev cur # splitlines_from [] (d # ds))
         else rev cur # splitlines_from [] cs)
      else splitlines_from (c # cur) cs)"

definition splitlines :: "ustr \<Rightarrow> ustr list" where
  "splitlines s = splitlines_from [] s"

text \<open>\<open>str(n)\<close> and \<open>f'{n}'\<close> for an \<open>int\<close>: the decimal digits, with a minus sign for a
  negative number.\<close>

function digits_of :: "nat \<Rightarrow> ustr" where
  "digits_of n = (if n < 10 then [48 + n] else digits_of (n div 10) @ [48 + n mod 10])"
  by pat_completeness auto
termination
  by (relation "measure id") auto

declare digits_of.simps [simp del]

definition str_int :: "int \<Rightarrow> ustr" where
  "str_int i = (if i < 0 then MINUS # digits_of (nat (- i)) else digits_of (nat i))"

text \<open>
  \<open>int(s)\<close> in base 10. A character beyond ASCII is first brought to ASCII: a Unicode
  blank becomes a space and a Unicode decimal digit becomes the ASCII digit of its
  value (the tables are those of Unicode 14.0, which CPython 3.11 carries; every run of
  decimal digits is ten code points long and starts at the digit zero listed here); any
  other character beyond ASCII makes the text invalid. Then blanks around the number are
  ignored, one sign may lead, and single underscores may stand between digits. A text
  with more than 4300 digits is refused as well (the interpreter's default limit).
  Every refusal is a \<open>ValueError\<close>, modelled as \<open>None\<close> here and turned into the
  exception by \<open>string_to_int\<close>.
\<close>

definition decimal_runs :: "uchar list" where
  "decimal_runs =
     [0x30, 0x660, 0x6F0, 0x7C0, 0x966, 0x9E6, 0xA66, 0xAE6, 0xB66, 0xBE6, 0xC66,
      0xCE6, 0xD66, 0xDE6, 0xE50, 0xED0, 0xF20, 0x1040, 0x1090, 0x17E0, 0x1810, 0x1946,
      0x19D0, 0x1A80, 0x1A90, 0x1B50, 0x1BB0, 0x1C40, 0x1C50, 0xA620, 0xA8D0, 0xA900,
      0xA9D0, 0xA9F0, 0xAA50, 0xABF0, 0xFF10, 0x104A0, 0x10D30, 0x11066, 0x110F0,
      0x11136, 0x111D0, 0x112F0, 0x11450, 0x114D0, 0x11650, 0x116C0, 0x11730, 0x118E0,
      0x11950, 0x11C50, 0x11D50, 0x11DA0, 0x16A60, 0x16AC0, 0x16B50, 0x1D7CE, 0x1D7D8,
      0x1D7E2, 0x1D7EC, 0x1D7F6, 0x1E140, 0x1E2F0, 0x1E950, 0x1FBF0]"

definition unicode_decimal :: "uchar \<Rightarrow> nat option" where
  "unicode_decimal c =
     (case filter (\<lambda>s. s \<le> c \<and> c < s + 10) decimal_runs of
        [] \<Rightarrow> None
      | s # ss \<Rightarrow> Some (c - s))"

definition unicode_blanks :: "uchar list" where
  "unicode_blanks =
     [0x85, 0xA0, 0x1680, 0x2000, 0x2001, 0x2002, 0x2003, 0x2004, 0x2005, 0x2006,
      0x2007, 0x2008, 0x2009, 0x200A, 0x2028, 0x2029, 0x202F, 0x205F, 0x3000]"

definition ascii_form :: "uchar \<Rightarrow> uchar option" where
  "ascii_form c =
     (if c < 128 then Some c
      else if c \<in> set unicode_blanks then Some 32
      else map_option (\<lambda>d. 48 + d) (unicode_decimal c))"

definition is_digit :: "uchar \<Rightarrow> bool" where
  "is_digit c = (48 \<le> c \<and> c \<le> 57)"

definition is_blank :: "uchar \<Rightarrow> bool" where
  "is_blank c = (c \<in> set [9, 10, 11, 12, 13, 32])"

fun digits_value :: "bool \<Rightarrow> nat \<Rightarrow> ustr \<Rightarrow> nat option" where
  "digits_value prev_digit acc [] = (if prev_digit then Some acc else None)"
| "digits_value prev_digit acc (c # cs) =
     (if is_digit c then digits_value True (10 * acc + (c - 48)) cs
      else if c = UNDERSCORE \<and> prev_digit then digits_value False acc cs
      else None)"

definition max_str_digits :: nat where
  "max_str_digits = 4300"

definition int_digits :: "ustr \<Rightarrow> nat option" where
  "int_digits u =
     (if max_str_digits < length (filter is_digit u) then None
      else digits_value False 0 u)"

definition py_int :: "ustr \<Rightarrow> int option" where
  "py_int s =
     (case those (map ascii_form s) of
        None \<Rightarrow> None
      | Some a \<Rightarrow>
          (let t = rev (dropWhile is_blank (rev (dropWhile is_blank a)))
           in case t of
                [] \<Rightarrow> None
              | c # cs \<Rightarrow>
                  if c = MINUS then map_option (\<lambda>n. - int n) (int_digits cs)
                  else if c = PLUS then map_option int (int_digits cs)
                  else map_option int (int_digits t)))"

section \<open>Exceptions, effects and the world\<close>

text \<open>
  The exceptions that can leave a call of the script. The network library raises on a
  failed connection; tuple unpacking and \<open>int\<close> raise \<open>ValueError\<close>; \<open>Path.mkdir\<close>
  raises \<open>FileExistsError\<close>; the database engine raises its own errors.
\<close>

datatype engine_error =
    ParserException | BinderException | ConversionException
  | ConstraintException | CatalogException | IOException | OutsideModel

datatype pyexn =
    ValueError
  | RequestException
  | FileExistsError
  | NotADirectoryError
  | DuckDBError engine_error

text \<open>What \<open>requests.get\<close> hands back: the script reads \<open>ok\<close> and \<open>text\<close> only.\<close>

record response =
  ok :: bool
  "text" :: ustr

text \<open>The \<open>result\<close> package's \<open>Ok\<close> and \<open>Err\<close>.\<close>

datatype ('a, 'e) result = Ok 'a | Err 'e

text \<open>The calls that reach outside the process, in the order they are made.\<close>

datatype event = Get ustr | Sql ustr | Mkdir "ustr list"

text \<open>Directories and files, keyed by the path's components below the working
  directory.\<close>

datatype node = Dir | File ustr

type_synonym filesystem = "ustr list \<rightharpoonup> node"

text \<open>
  The world of a run: the state of the database engine, the file system, and the trace
  of outside calls. The network is a function from the URL to what \<open>requests.get\<close>
  does with it (raise, or return a response). The engine is a function from the
  statement text, its own state and the file system to an error or to a new state and
  file system: a statement may read and write files.
\<close>

record 'db world =
  db :: 'db
  fs :: filesystem
  trace :: "event list"

type_synonym network = "ustr \<Rightarrow> pyexn + response"
type_synonym 'db engine = "ustr \<Rightarrow> 'db \<times> filesystem \<Rightarrow> pyexn + 'db \<times> filesystem"

definition log_event :: "event \<Rightarrow> 'db world \<Rightarrow> 'db world" where
  "log_event e w = w\<lparr>trace := trace w @ [e]\<rparr>"

text \<open>\<open>duckdb.sql(text)\<close>: an exception leaves the engine's state and the files as they
  were.\<close>

definition duckdb_sql_call :: "'db engine \<Rightarrow> ustr \<Rightarrow> 'db world \<Rightarrow> (pyexn + unit) \<times> 'db world" where
  "duckdb_sql_call eng q w =
     (let w1 = log_event (Sql q) w
      in case eng q (db w1, fs w1) of
           Inl e \<Rightarrow> (Inl e, w1)
         | Inr (d, f) \<Rightarrow> (Inr (), w1\<lparr>db := d, fs := f\<rparr>))"

section \<open>The statement texts\<close>

definition join_lines :: "ustr list \<Rightarrow> ustr" where
  "join_lines ls = concat (map (\<lambda>l. l @ [NL]) (butlast ls)) @ last ls"

definition create_table_sql :: ustr where
  "create_table_sql = join_lines
     [asc ''CREATE OR REPLACE TABLE'',
      [],
      asc ''    thai_population'',
      asc ''    ('',
      asc ''        data_year INTEGER,'',
      asc ''        yymm VARCHAR,'',
      asc ''        cc_code INTEGER,'',
      asc ''        cc_desc VARCHAR,'',
      asc ''        rcode_code VARCHAR,'',
      asc ''        rcode_desc VARCHAR,'',
      asc ''        ccaatt_code VARCHAR,'',
      asc ''        ccaatt_desc VARCHAR,'',
      asc ''        ccaattmm_code VARCHAR,'',
      asc ''        ccaattmm_desc VARCHAR,'',
      asc ''        male INTEGER,'',
      asc ''        female INTEGER,'',
      asc ''        total INTEGER,'',
      asc ''        house INTEGER,'',
      asc ''        PRIMARY KEY (data_year, cc_code)'',
      asc ''    );'']"

text \<open>The f-string of \<open>generate_insert_sql\<close>: each argument is formatted and put between
  two single quotes as it is.\<close>

definition generate_insert_sql ::
  "int \<Rightarrow> ustr \<Rightarrow> int \<Rightarrow> ustr \<Rightarrow> ustr \<Rightarrow> ustr \<Rightarrow> ustr \<Rightarrow> ustr \<Rightarrow> ustr \<Rightarrow> ustr
     \<Rightarrow> int \<Rightarrow> int \<Rightarrow> int \<Rightarrow> int \<Rightarrow> ustr" where
  "generate_insert_sql data_year yymm cc_code cc_desc rcode_code rcode_desc ccaatt_code
       ccaatt_desc ccaattmm_code ccaattmm_desc male female total' house =
     asc ''INSERT INTO thai_population'' @ [NL] @
     asc ''VALUES ('' @ [NL] @
     asc ''    '' @ [SQUOTE] @ str_int data_year @ [SQUOTE] @ asc '','' @ [NL] @
     asc ''    '' @ [SQUOTE] @ yymm @ [SQUOTE] @ asc '','' @ [NL] @
     asc ''    '' @ [SQUOTE] @ str_int cc_code @ [SQUOTE] @ asc '','' @ [NL] @
     asc ''    '' @ [SQUOTE] @ cc_desc @ [SQUOTE] @ asc '','' @ [NL] @
     asc ''    '' @ [SQUOTE] @ rcode_code @ [SQUOTE] @ asc '','' @ [NL] @
     asc ''    '' @ [SQUOTE] @ rcode_desc @ [SQUOTE] @ asc '','' @ [NL] @
     asc ''    '' @ [SQUOTE] @ ccaatt_code @ [SQUOTE] @ asc '','' @ [NL] @
     asc ''    '' @ [SQUOTE] @ ccaatt_desc @ [SQUOTE] @ asc '','' @ [NL] @
     asc ''    '' @ [SQUOTE] @ ccaattmm_code @ [SQUOTE] @ asc '','' @ [NL] @
     asc ''    '' @ [SQUOTE] @ ccaattmm_desc @ [SQUOTE] @ asc '','' @ [NL] @
     asc ''    '' @ [SQUOTE] @ str_int male @ [SQUOTE] @ asc '','' @ [NL] @
     asc ''    '' @ [SQUOTE] @ str_int female @ [SQUOTE] @ asc '','' @ [NL] @
     asc ''    '' @ [SQUOTE] @ str_int total' @ [SQUOTE] @ asc '','' @ [NL] @
     asc ''    '' @ [SQUOTE] @ str_int house @ [SQUOTE] @ [NL] @
     asc '')''"

definition copy_sql :: ustr where
  "copy_sql = join_lines
     [asc ''COPY thai_population'',
      asc ''TO'',
      asc ''    '' @ [SQUOTE] @ asc ''./datasets/thai_population'' @ [SQUOTE],
      asc ''    ('',
      asc ''        FORMAT PARQUET,'',
      asc ''        PARTITION_BY (data_year),'',
      asc ''        OVERWRITE_OR_IGNORE,'',
      asc ''        COMPRESSION GZIP,'',
      asc ''        FILE_EXTENSION '' @ [SQUOTE] @ asc ''parquet.gz'' @ [SQUOTE],
      asc ''    )'',
      []]"

section \<open>The Fetcher\<close>

definition convert_to_thai_year :: "int \<Rightarrow> int" where
  "convert_to_thai_year year = (year + 543) - 2500"

definition stat_url :: "int \<Rightarrow> ustr" where
  "stat_url thai_year =
     asc ''https://stat.bora.dopa.go.th/new_stat/file/'' @ str_int thai_year
     @ asc ''/stat_c'' @ str_int thai_year @ asc ''.txt''"

definition get_data_stat_by_year ::
  "network \<Rightarrow> int \<Rightarrow> 'db world \<Rightarrow> (pyexn + (ustr, ustr) result) \<times> 'db world" where
  "get_data_stat_by_year net year w =
     (let thai_year = convert_to_thai_year year;
          url = stat_url thai_year;
          w1 = log_event (Get url) w
      in case net url of
           Inl e \<Rightarrow> (Inl e, w1)
         | Inr response \<Rightarrow>
             if \<not> ok response then (Inr (Err (text response)), w1)
             else (Inr (Ok (text response)), w1))"

section \<open>The Parser\<close>

definition clean_text :: "ustr \<Rightarrow> ustr" where
  "clean_text t = strip_chars [BOM] t"

definition extract_row :: "ustr \<Rightarrow> ustr list" where
  "extract_row row = split_on PIPE row"

definition string_to_int :: "ustr \<Rightarrow> pyexn + int" where
  "string_to_int v =
     (case py_int (remove_char COMMA v) of
        None \<Rightarrow> Inl ValueError
      | Some n \<Rightarrow> Inr n)"

text \<open>
  The body of the \<open>for\<close> loop up to the statement text: the 13-name tuple unpacking
  raises \<open>ValueError\<close> unless the split gives exactly 13 fields; the five numeric
  fields are coerced in the order the call evaluates its arguments.
\<close>

definition row_statement :: "int \<Rightarrow> ustr \<Rightarrow> pyexn + ustr" where
  "row_statement year row =
     (let fields = extract_row (strip_chars [PIPE] row)
      in if length fields \<noteq> 13 then Inl ValueError
         else
           (case string_to_int (fields ! 1) of
              Inl e \<Rightarrow> Inl e
            | Inr cc_code \<Rightarrow>
           (case string_to_int (fields ! 9) of
              Inl e \<Rightarrow> Inl e
            | Inr male \<Rightarrow>
           (case string_to_int (fields ! 10) of
              Inl e \<Rightarrow> Inl e
            | Inr female \<Rightarrow>
           (case string_to_int (fields ! 11) of
              Inl e \<Rightarrow> Inl e
            | Inr total' \<Rightarrow>
           (case string_to_int (fields ! 12) of
              Inl e \<Rightarrow> Inl e
            | Inr house \<Rightarrow>
                Inr (generate_insert_sql year (fields ! 0) cc_code (fields ! 2) (fields ! 3)
                       (fields ! 4) (fields ! 5) (fields ! 6) (fields ! 7) (fields ! 8)
                       male female total' house)))))))"

section \<open>The Loader and the Driver\<close>

text \<open>One round of the \<open>for\<close> loop, and the loop: the row's statement is built and sent to
  the engine; an exception of either ends the loop with the world as it then is.\<close>

definition load_row :: "'db engine \<Rightarrow> int \<Rightarrow> ustr \<Rightarrow> 'db world \<Rightarrow> (pyexn + unit) \<times> 'db world" where
  "load_row eng year row w =
     (case row_statement year row of
        Inl e \<Rightarrow> (Inl e, w)
      | Inr sql_syntax \<Rightarrow> duckdb_sql_call eng sql_syntax w)"

fun load_rows :: "'db engine \<Rightarrow> int \<Rightarrow> ustr list \<Rightarrow> 'db world \<Rightarrow> (pyexn + unit) \<times> 'db world" where
  "load_rows eng year [] w = (Inr (), w)"
| "load_rows eng year (row # rest) w =
     (case load_row eng year row w of
        (Inl e, w1) \<Rightarrow> (Inl e, w1)
      | (Inr u, w1) \<Rightarrow> load_rows eng year rest w1)"

definition create_duck_db_table :: "'db engine \<Rightarrow> 'db world \<Rightarrow> (pyexn + unit) \<times> 'db world" where
  "create_duck_db_table eng w = duckdb_sql_call eng create_table_sql w"

text \<open>
  The \<open>while True\<close> loop. It ends on the first \<open>Err\<close> of the Fetcher or on an exception;
  on a network that answers every year with success it never ends, which is the value
  \<open>None\<close>.
\<close>

partial_function (option) driver_loop ::
  "network \<Rightarrow> 'db engine \<Rightarrow> int \<Rightarrow> 'db world \<Rightarrow> ((pyexn + unit) \<times> 'db world) option" where
  "driver_loop net eng year w =
     (case get_data_stat_by_year net year w of
        (Inl e, w1) \<Rightarrow> Some (Inl e, w1)
      | (Inr r, w1) \<Rightarrow>
          (case r of
             Err e \<Rightarrow> Some (Inr (), w1)
           | Ok v \<Rightarrow>
               (case load_rows eng year (splitlines (clean_text v)) w1 of
                  (Inl e, w2) \<Rightarrow> Some (Inl e, w2)
                | (Inr u, w2) \<Rightarrow> driver_loop net eng (year + 1) w2)))"

section \<open>The Exporter\<close>

text \<open>\<open>Path(s)\<close> for a relative path: the components between slashes, without the empty
  ones and the \<open>.\<close> ones.\<close>

definition SLASH :: uchar where "SLASH = 47"
definition DOT :: uchar where "DOT = 46"

definition path_parts :: "ustr \<Rightarrow> ustr list" where
  "path_parts s = filter (\<lambda>c. c \<noteq> [] \<and> c \<noteq> [DOT]) (split_on SLASH s)"

text \<open>\<open>mkdir(parents=True, exist_ok=True)\<close>: every missing directory on the way is
  created, an existing directory is accepted, and a file in the way raises.\<close>

fun mkdir_parents :: "ustr list \<Rightarrow> ustr list \<Rightarrow> filesystem \<Rightarrow> pyexn + filesystem" where
  "mkdir_parents pre [] f = Inr f"
| "mkdir_parents pre (c # cs) f =
     (case f (pre @ [c]) of
        None \<Rightarrow> mkdir_parents (pre @ [c]) cs (f(pre @ [c] \<mapsto> Dir))
      | Some Dir \<Rightarrow> mkdir_parents (pre @ [c]) cs f
      | Some (File x) \<Rightarrow> Inl (if cs = [] then FileExistsError else NotADirectoryError))"

definition path_mkdir :: "ustr list \<Rightarrow> 'db world \<Rightarrow> (pyexn + unit) \<times> 'db world" where
  "path_mkdir p w =
     (let w1 = log_event (Mkdir p) w
      in case mkdir_parents [] p (fs w1) of
           Inl e \<Rightarrow> (Inl e, w1)
         | Inr f \<Rightarrow> (Inr (), w1\<lparr>fs := f\<rparr>))"

definition write_into_hive_partition :: "'db engine \<Rightarrow> 'db world \<Rightarrow> (pyexn + unit) \<times> 'db world" where
  "write_into_hive_partition eng w =
     (case path_mkdir (path_parts (asc ''.datasets'')) w of
        (Inl e, w1) \<Rightarrow> (Inl e, w1)
      | (Inr u, w1) \<Rightarrow> duckdb_sql_call eng copy_sql w1)"

section \<open>The script\<close>

definition start_year :: int where "start_year = 1993"

definition main :: "network \<Rightarrow> 'db engine \<Rightarrow> 'db world \<Rightarrow> ((pyexn + unit) \<times> 'db world) option" where
  "main net eng w =
     (case create_duck_db_table eng w of
        (Inl e, w1) \<Rightarrow> Some (Inl e, w1)
      | (Inr u, w1) \<Rightarrow>
          (case driver_loop net eng start_year w1 of
             None \<Rightarrow> None
           | Some (Inl e, w2) \<Rightarrow> Some (Inl e, w2)
           | Some (Inr u, w2) \<Rightarrow> Some (write_into_hive_partition eng w2)))"

section \<open>Observations used by the properties\<close>

text \<open>The first line of a text, as \<open>splitlines\<close> gives it; a text without lines has
  none.\<close>

definition first_line :: "ustr \<Rightarrow> ustr option" where
  "first_line s = (case splitlines s of [] \<Rightarrow> None | l # ls \<Rightarrow> Some l)"

text \<open>The URLs requested, the statements sent to the engine and the directories asked
  for, each in the order of the trace.\<close>

fun requested :: "event list \<Rightarrow> ustr list" where
  "requested [] = []"
| "requested (Get u # es) = u # requested es"
| "requested (e # es) = requested es"

fun statements :: "event list \<Rightarrow> ustr list" where
  "statements [] = []"
| "statements (Sql q # es) = q # statements es"
| "statements (e # es) = statements es"

fun mkdirs :: "event list \<Rightarrow> ustr list list" where
  "mkdirs [] = []"
| "mkdirs (Mkdir p # es) = p # mkdirs es"
| "mkdirs (e # es) = mkdirs es"

text \<open>The URL the Fetcher requests for a year, the lines of the body the network
  answers with, the statements the inner loop sends for a list of rows (up to the first
  row that raises), and the outside calls of one round of the loop.\<close>

definition year_url :: "int \<Rightarrow> ustr" where
  "year_url year = stat_url (convert_to_thai_year year)"

definition body_lines :: "network \<Rightarrow> int \<Rightarrow> ustr list" where
  "body_lines net year =
     (case net (year_url year) of
        Inl e \<Rightarrow> []
      | Inr r \<Rightarrow> splitlines (clean_text (text r)))"

fun statements_of :: "int \<Rightarrow> ustr list \<Rightarrow> ustr list" where
  "statements_of year [] = []"
| "statements_of year (row # rest) =
     (case row_statement year row of
        Inl e \<Rightarrow> []
      | Inr q \<Rightarrow> q # statements_of year rest)"

definition year_events :: "network \<Rightarrow> int \<Rightarrow> event list" where
  "year_events net year =
     Get (year_url year) # map Sql (statements_of year (body_lines net year))"



text \<open>
  The Driver as a state machine: \<open>running net eng s t\<close> holds when the loop, started in
  the state \<open>s\<close> (a year and a world), comes to the head of the loop in the state \<open>t\<close>
  after some rounds, each with a successful fetch and a body loaded without an
  exception.
\<close>

inductive running ::
  "network \<Rightarrow> 'db engine \<Rightarrow> int \<times> 'db world \<Rightarrow> int \<times> 'db world \<Rightarrow> bool"
  for net :: network and eng :: "'db engine" where
  running_start: "running net eng s s"
| running_next:
    "running net eng s (year, w) \<Longrightarrow> net (year_url year) = Inr r \<Longrightarrow> ok r \<Longrightarrow>
     load_rows eng year (splitlines (clean_text (text r))) (log_event (Get (year_url year)) w)
       = (Inr (), w') \<Longrightarrow>
     running net eng s (year + 1, w')"

text \<open>The engine on a list of statements, one after the other, up to the first that
  raises.\<close>

fun engine_run :: "'db engine \<Rightarrow> ustr list \<Rightarrow> 'db \<times> filesystem \<Rightarrow> pyexn + 'db \<times> filesystem" where
  "engine_run eng [] s = Inr s"
| "engine_run eng (q # qs) s =
     (case eng q s of
        Inl e \<Rightarrow> Inl e
      | Inr s' \<Rightarrow> engine_run eng qs s')"

section \<open>Reading a statement as the engine does\<close>

text \<open>
  The engine receives text. To say what a statement's text denotes, the text is read
  with the lexical rules of SQL: blanks separate tokens, a string literal runs from a
  single quote to the next single quote that is not doubled, and a doubled single quote
  inside a literal stands for one. The readers recognise the three statement shapes of
  the script and give \<open>None\<close> for any other text.
\<close>

datatype token = Word ustr | LParen | RParen | CommaTok | Semi | StrLit ustr

datatype lex_state = Between | InWord ustr | InString ustr | AfterQuote ustr

definition is_word_char :: "uchar \<Rightarrow> bool" where
  "is_word_char c =
     (is_digit c \<or> (65 \<le> c \<and> c \<le> 90) \<or> (97 \<le> c \<and> c \<le> 122) \<or> c = UNDERSCORE)"

definition lex_start :: "uchar \<Rightarrow> (token list \<times> lex_state) option" where
  "lex_start c =
     (if is_blank c then Some ([], Between)
      else if c = 40 then Some ([LParen], Between)
      else if c = 41 then Some ([RParen], Between)
      else if c = COMMA then Some ([CommaTok], Between)
      else if c = 59 then Some ([Semi], Between)
      else if c = SQUOTE then Some ([], InString [])
      else if is_word_char c then Some ([], InWord [c])
      else None)"

fun lex :: "lex_state \<Rightarrow> ustr \<Rightarrow> token list option" where
  "lex Between [] = Some []"
| "lex (InWord a) [] = Some [Word (rev a)]"
| "lex (InString a) [] = None"
| "lex (AfterQuote a) [] = Some [StrLit (rev a)]"
| "lex Between (c # cs) =
     (case lex_start c of
        None \<Rightarrow> None
      | Some (ts, st) \<Rightarrow> map_option (\<lambda>r. ts @ r) (lex st cs))"
| "lex (InWord a) (c # cs) =
     (if is_word_char c then lex (InWord (c # a)) cs
      else (case lex_start c of
              None \<Rightarrow> None
            | Some (ts, st) \<Rightarrow> map_option (\<lambda>r. Word (rev a) # ts @ r) (lex st cs)))"
| "lex (InString a) (c # cs) =
     (if c = SQUOTE then lex (AfterQuote a) cs else lex (InString (c # a)) cs)"
| "lex (AfterQuote a) (c # cs) =
     (if c = SQUOTE then lex (InString (SQUOTE # a)) cs
      else (case lex_start c of
              None \<Rightarrow> None
            | Some (ts, st) \<Rightarrow> map_option (\<lambda>r. StrLit (rev a) # ts @ r) (lex st cs)))"

definition to_upper :: "ustr \<Rightarrow> ustr" where
  "to_upper s = map (\<lambda>c. if 97 \<le> c \<and> c \<le> 122 then c - 32 else c) s"

definition to_lower :: "ustr \<Rightarrow> ustr" where
  "to_lower s = map (\<lambda>c. if 65 \<le> c \<and> c \<le> 90 then c + 32 else c) s"

text \<open>A statement may end with a semicolon.\<close>

definition statement_end :: "token list \<Rightarrow> bool" where
  "statement_end ts = (ts = [] \<or> ts = [Semi])"

text \<open>\<open>INSERT INTO name VALUES ( 'literal' , ... )\<close>: the table name and the literal
  values.\<close>

fun values_list :: "token list \<Rightarrow> ustr list option" where
  "values_list (StrLit s # CommaTok # ts) = map_option (\<lambda>r. s # r) (values_list ts)"
| "values_list (StrLit s # RParen # ts) = (if statement_end ts then Some [s] else None)"
| "values_list ts = None"

definition read_insert :: "ustr \<Rightarrow> (ustr \<times> ustr list) option" where
  "read_insert q =
     (case lex Between q of
        Some (Word a # Word b # Word t # Word c # LParen # ts) \<Rightarrow>
          if to_upper a = asc ''INSERT'' \<and> to_upper b = asc ''INTO''
             \<and> to_upper c = asc ''VALUES''
          then map_option (\<lambda>vs. (to_lower t, vs)) (values_list ts)
          else None
      | _ \<Rightarrow> None)"

text \<open>A value between two single quotes, as the f-string writes it.\<close>

definition quoted :: "ustr \<Rightarrow> ustr" where
  "quoted v = SQUOTE # v @ [SQUOTE]"

section \<open>The engine's table\<close>

text \<open>
  A table has named columns of type \<open>INTEGER\<close> or \<open>VARCHAR\<close>, a primary key (the
  positions of the key's columns; none when the table was declared without a key) and
  rows. \<open>INTEGER\<close> is the 32-bit signed integer.
\<close>

datatype sql_type = INTEGER | VARCHAR

datatype sql_value = IntV int | StrV ustr

record table =
  columns :: "(ustr \<times> sql_type) list"
  primary_key :: "nat list"
  rows :: "sql_value list list"

type_synonym database = "ustr \<rightharpoonup> table"

text \<open>
  \<open>CREATE OR REPLACE TABLE name ( column type , ... , PRIMARY KEY ( column , ... ) )\<close>:
  the elements between the parentheses are read token by token, a column with its type
  or the key with its column names; the key is optional and may stand anywhere among the
  columns, once. The key's names are then looked up among the columns.
\<close>

definition read_type :: "ustr \<Rightarrow> sql_type option" where
  "read_type s =
     (if to_upper s = asc ''INTEGER'' then Some INTEGER
      else if to_upper s = asc ''VARCHAR'' then Some VARCHAR
      else None)"

datatype element_state =
    ExpectElement | HaveName ustr | ExpectKeyParen | ExpectKeyName | AfterKeyName
  | AfterElement

definition element_step ::
  "element_state \<Rightarrow> token \<Rightarrow> (ustr \<times> sql_type) list \<Rightarrow> ustr list
     \<Rightarrow> (element_state \<times> (ustr \<times> sql_type) list \<times> ustr list) option" where
  "element_step st tk cols key =
     (case st of
        ExpectElement \<Rightarrow>
          (case tk of Word n \<Rightarrow> Some (HaveName n, cols, key) | _ \<Rightarrow> None)
      | HaveName n \<Rightarrow>
          (case tk of
             Word ty \<Rightarrow>
               if to_upper n = asc ''PRIMARY'' \<and> to_upper ty = asc ''KEY''
               then (if key = [] then Some (ExpectKeyParen, cols, key) else None)
               else (case read_type ty of
                       None \<Rightarrow> None
                     | Some T \<Rightarrow> Some (AfterElement, cols @ [(to_lower n, T)], key))
           | _ \<Rightarrow> None)
      | ExpectKeyParen \<Rightarrow>
          (case tk of LParen \<Rightarrow> Some (ExpectKeyName, cols, key) | _ \<Rightarrow> None)
      | ExpectKeyName \<Rightarrow>
          (case tk of Word n \<Rightarrow> Some (AfterKeyName, cols, key @ [to_lower n]) | _ \<Rightarrow> None)
      | AfterKeyName \<Rightarrow>
          (case tk of
             CommaTok \<Rightarrow> Some (ExpectKeyName, cols, key)
           | RParen \<Rightarrow> Some (AfterElement, cols, key)
           | _ \<Rightarrow> None)
      | AfterElement \<Rightarrow>
          (case tk of CommaTok \<Rightarrow> Some (ExpectElement, cols, key) | _ \<Rightarrow> None))"

fun read_elements ::
  "element_state \<Rightarrow> (ustr \<times> sql_type) list \<Rightarrow> ustr list \<Rightarrow> token list
     \<Rightarrow> ((ustr \<times> sql_type) list \<times> ustr list) option" where
  "read_elements st cols key [] = None"
| "read_elements st cols key (tk # ts) =
     (if st = AfterElement \<and> tk = RParen
      then (if statement_end ts then Some (cols, key) else None)
      else (case element_step st tk cols key of
              None \<Rightarrow> None
            | Some (st', cols', key') \<Rightarrow> read_elements st' cols' key' ts))"

fun index_of :: "'a \<Rightarrow> 'a list \<Rightarrow> nat option" where
  "index_of x [] = None"
| "index_of x (y # ys) = (if x = y then Some 0 else map_option Suc (index_of x ys))"

definition read_create :: "ustr \<Rightarrow> (ustr \<times> table) option" where
  "read_create q =
     (case lex Between q of
        Some (Word a # Word b # Word c # Word d # Word name # LParen # ts) \<Rightarrow>
          if to_upper a = asc ''CREATE'' \<and> to_upper b = asc ''OR''
             \<and> to_upper c = asc ''REPLACE'' \<and> to_upper d = asc ''TABLE''
          then
            (case read_elements ExpectElement [] [] ts of
               None \<Rightarrow> None
             | Some (cols, key) \<Rightarrow>
                 (case those (map (\<lambda>n. index_of n (map fst cols)) key) of
                    None \<Rightarrow> None
                  | Some ks \<Rightarrow>
                      Some (to_lower name, \<lparr>columns = cols, primary_key = ks, rows = []\<rparr>)))
          else None
      | _ \<Rightarrow> None)"

text \<open>\<open>COPY name TO 'path' ( options )\<close>: the table name and the path; the options are
  not read.\<close>

definition read_copy :: "ustr \<Rightarrow> (ustr \<times> ustr) option" where
  "read_copy q =
     (case lex Between q of
        Some (Word a # Word t # Word b # StrLit p # LParen # ts) \<Rightarrow>
          if to_upper a = asc ''COPY'' \<and> to_upper b = asc ''TO''
          then Some (to_lower t, p)
          else None
      | _ \<Rightarrow> None)"


text \<open>
  An insertion casts each literal to its column's type, refuses a row whose key is
  already in the table when the table has a key, and appends the row otherwise. The
  cast is modelled for a plain signed decimal, which is what the script writes for a
  number; the engine's reading of any other spelling is outside the model.
\<close>

fun decimal_value :: "nat \<Rightarrow> ustr \<Rightarrow> nat option" where
  "decimal_value acc [] = Some acc"
| "decimal_value acc (c # cs) =
     (if is_digit c then decimal_value (10 * acc + (c - 48)) cs else None)"

definition signed_decimal :: "ustr \<Rightarrow> int option" where
  "signed_decimal s =
     (case s of
        [] \<Rightarrow> None
      | c # cs \<Rightarrow>
          if c = MINUS then (if cs = [] then None
                            else map_option (\<lambda>n. - int n) (decimal_value 0 cs))
          else map_option int (decimal_value 0 s))"

definition cast_value :: "sql_type \<Rightarrow> ustr \<Rightarrow> pyexn + sql_value" where
  "cast_value ty s =
     (case ty of
        VARCHAR \<Rightarrow> Inr (StrV s)
      | INTEGER \<Rightarrow>
          (case signed_decimal s of
             None \<Rightarrow> Inl (DuckDBError OutsideModel)
           | Some n \<Rightarrow>
               if - 2147483648 \<le> n \<and> n \<le> 2147483647 then Inr (IntV n)
               else Inl (DuckDBError ConversionException)))"

fun cast_row :: "sql_type list \<Rightarrow> ustr list \<Rightarrow> pyexn + sql_value list" where
  "cast_row [] [] = Inr []"
| "cast_row (ty # tys) (s # ss) =
     (case cast_value ty s of
        Inl e \<Rightarrow> Inl e
      | Inr v \<Rightarrow> (case cast_row tys ss of Inl e \<Rightarrow> Inl e | Inr vs \<Rightarrow> Inr (v # vs)))"
| "cast_row tys ss = Inl (DuckDBError BinderException)"

definition key_of :: "table \<Rightarrow> sql_value list \<Rightarrow> sql_value list" where
  "key_of t r = map (\<lambda>i. r ! i) (primary_key t)"

definition insert_row :: "table \<Rightarrow> ustr list \<Rightarrow> pyexn + table" where
  "insert_row t vs =
     (case cast_row (map snd (columns t)) vs of
        Inl e \<Rightarrow> Inl e
      | Inr r \<Rightarrow>
          if primary_key t \<noteq> [] \<and> key_of t r \<in> set (map (key_of t) (rows t))
          then Inl (DuckDBError ConstraintException)
          else Inr (t\<lparr>rows := rows t @ [r]\<rparr>))"

text \<open>
  \<open>COPY\<close> to a partitioned directory: the directory itself is made when it is missing,
  the directories above it are not, and a file in its place or a missing directory above
  it is an error. The partition files written below it are not part of this model.
\<close>

definition copy_target :: "ustr list \<Rightarrow> filesystem \<Rightarrow> pyexn + filesystem" where
  "copy_target parts f =
     (if parts = [] then Inr f
      else if \<not> list_all (\<lambda>k. f (take k parts) = Some Dir) [1..<length parts]
      then Inl (DuckDBError IOException)
      else (case f parts of
              Some (File x) \<Rightarrow> Inl (DuckDBError IOException)
            | _ \<Rightarrow> Inr (f(parts \<mapsto> Dir))))"

text \<open>
  The engine on the three statements of the script, each read from its text.
  \<open>CREATE OR REPLACE TABLE\<close> puts the empty table that the text declares in place of
  whatever had its name; \<open>COPY ... TO\<close> reads the table and writes to the file system; an
  \<open>INSERT\<close> adds a row to the named table. A text that is none of these is outside the
  model.
\<close>

definition duckdb_engine :: "database engine" where
  "duckdb_engine q s =
     (case s of (d, f) \<Rightarrow>
        (case read_create q of
           Some (name, t) \<Rightarrow> Inr (d(name \<mapsto> t), f)
         | None \<Rightarrow>
        (case read_copy q of
           Some (name, path) \<Rightarrow>
             (case d name of
                None \<Rightarrow> Inl (DuckDBError CatalogException)
              | Some t \<Rightarrow>
                  (case copy_target (path_parts path) f of
                     Inl e \<Rightarrow> Inl e
                   | Inr f' \<Rightarrow> Inr (d, f')))
         | None \<Rightarrow>
        (case read_insert q of
           None \<Rightarrow> Inl (DuckDBError OutsideModel)
         | Some (name, vs) \<Rightarrow>
             (case d name of
                None \<Rightarrow> Inl (DuckDBError CatalogException)
              | Some t \<Rightarrow>
                  (case insert_row t vs of
                     Inl e \<Rightarrow> Inl e
                   | Inr t' \<Rightarrow> Inr (d(name \<mapsto> t'), f)))))))"

text \<open>The numbers an \<open>INTEGER\<close> column holds.\<close>

definition fits_integer :: "int \<Rightarrow> bool" where
  "fits_integer i = (- 2147483648 \<le> i \<and> i \<le> 2147483647)"




section \<open>Sample inputs\<close>

text \<open>Concrete inputs at which the properties below are evaluated: a world with nothing
  in it, for an engine without a state and for the database engine, and a well-formed
  line of 13 fields.\<close>

definition w_empty :: "unit world" where
  "w_empty = \<lparr>db = (), fs = Map.empty, trace = []\<rparr>"


definition sample_line :: ustr where
  "sample_line = asc ''|yymm|001|a|b|c|d|e|f|g|1,234|2,345|3,579|1,000|''"


definition short_line :: ustr where
  "short_line = asc ''6012|x''"

definition nonnumeric_line :: ustr where
  "nonnumeric_line = asc ''|yymm|002|a|b|c|d|e|f|g|n/a|2,345|3,579|1,000|''"

text \<open>An engine that accepts every statement and one that refuses the insertion of the
  sample line for 1994; a network that answers the years before 2000 with a body of one
  well-formed line behind a byte-order mark and the year 2000 with a failure; one that
  answers with a body that is no record; and one whose body for 1994 has a malformed
  second line.\<close>

definition accept_all :: "unit engine" where
  "accept_all q s = Inr s"


definition sample_body :: ustr where
  "sample_body = BOM # sample_line @ [NL]"



definition broken_body :: ustr where
  "broken_body = sample_line @ [NL] @ nonnumeric_line @ [NL] @ sample_line @ [NL]"

definition broken_net :: network where
  "broken_net url =
     (if url = year_url 1993 then Inr \<lparr>ok = True, text = sample_body\<rparr>
      else Inr \<lparr>ok = True, text = broken_body\<rparr>)"

text \<open>A description with an apostrophe in it, the row the sample line becomes in the
  table, and a database that holds that one row.\<close>

definition apostrophe_name :: ustr where
  "apostrophe_name = asc ''Nakhon'' @ [SQUOTE] @ asc ''s''"



section \<open>Facts about the string functions\<close>

lemmas char_defs = BOM_def PIPE_def COMMA_def SQUOTE_def NL_def MINUS_def PLUS_def
  UNDERSCORE_def CR_def SLASH_def DOT_def

lemma splitlines_from_first:
  "cur \<noteq> [] \<or> s \<noteq> [] \<Longrightarrow>
   \<exists>rest. splitlines_from cur s = (rev cur @ takeWhile (\<lambda>c. \<not> is_linebreak c) s) # rest"
proof (induction s arbitrary: cur)
  case Nil
  then show ?case by simp
next
  case (Cons c cs)
  show ?case
  proof (cases "is_linebreak c")
    case True
    then show ?thesis by (simp split: list.split)
  next
    case False
    have "\<exists>rest. splitlines_from (c # cur) cs
            = (rev (c # cur) @ takeWhile (\<lambda>c. \<not> is_linebreak c) cs) # rest"
      by (rule Cons.IH) simp
    with False show ?thesis by simp
  qed
qed

lemma first_line_eq:
  "first_line s = (if s = [] then None else Some (takeWhile (\<lambda>c. \<not> is_linebreak c) s))"
proof (cases "s = []")
  case True
  then show ?thesis by (simp add: first_line_def splitlines_def)
next
  case False
  then obtain rest where "splitlines_from [] s = (takeWhile (\<lambda>c. \<not> is_linebreak c) s) # rest"
    using splitlines_from_first [of "[]" s] by auto
  with False show ?thesis by (simp add: first_line_def splitlines_def)
qed

lemma clean_text_eq:
  "clean_text t = rev (dropWhile (\<lambda>c. c = BOM) (rev (dropWhile (\<lambda>c. c = BOM) t)))"
  by (simp add: clean_text_def strip_chars_def lstrip_chars_def rstrip_chars_def)

lemma rstrip_prefix:
  "rev (dropWhile P (rev u)) @ rev (takeWhile P (rev u)) = u"
  by (metis rev_append rev_rev_ident takeWhile_dropWhile_id)

lemma hd_rstrip:
  assumes "rev (dropWhile P (rev u)) \<noteq> []"
  shows "hd (rev (dropWhile P (rev u))) = hd u"
proof -
  have "hd (rev (dropWhile P (rev u)) @ rev (takeWhile P (rev u))) = hd (rev (dropWhile P (rev u)))"
    using assms by simp
  then show ?thesis by (simp add: rstrip_prefix)
qed

lemma clean_text_no_leading_bom:
  "clean_text t \<noteq> [] \<Longrightarrow> hd (clean_text t) \<noteq> BOM"
proof -
  assume ne: "clean_text t \<noteq> []"
  let ?u = "dropWhile (\<lambda>c. c = BOM) t"
  from ne have une: "?u \<noteq> []"
    unfolding clean_text_eq by (metis dropWhile.simps(1) rev.simps(1))
  then have "hd ?u \<noteq> BOM" using hd_dropWhile [of "\<lambda>c. c = BOM" t] by simp
  moreover have "hd (clean_text t) = hd ?u"
    using ne hd_rstrip [of "\<lambda>c. c = BOM" ?u] by (simp add: clean_text_eq)
  ultimately show ?thesis by simp
qed

lemma bom_not_linebreak: "\<not> is_linebreak BOM"
  by (simp add: is_linebreak_def BOM_def)

lemma first_line_clean_no_bom:
  assumes "first_line (clean_text t) = Some l"
  shows "l = [] \<or> hd l \<noteq> BOM"
proof -
  from assms have ne: "clean_text t \<noteq> []"
    and l: "l = takeWhile (\<lambda>c. \<not> is_linebreak c) (clean_text t)"
    by (auto simp: first_line_eq split: if_splits)
  show ?thesis
  proof (cases "l = []")
    case True then show ?thesis by simp
  next
    case False
    with l have "hd l = hd (clean_text t)"
      by (cases "clean_text t") (auto split: if_splits)
    with clean_text_no_leading_bom [OF ne] show ?thesis by simp
  qed
qed

lemma clean_text_first_line_kept:
  assumes nolead: "t = [] \<or> hd t \<noteq> BOM"
      and tail: "t = [] \<or> last t \<noteq> BOM \<or> list_ex is_linebreak t"
  shows "first_line (clean_text t) = first_line t"
proof (cases "t = []")
  case True
  then show ?thesis by (simp add: clean_text_eq)
next
  case False
  with nolead have l: "dropWhile (\<lambda>c. c = BOM) t = t" by (cases t) auto
  let ?c = "rev (dropWhile (\<lambda>c. c = BOM) (rev t))"
  let ?r = "rev (takeWhile (\<lambda>c. c = BOM) (rev t))"
  have c: "clean_text t = ?c" by (simp add: clean_text_eq l)
  have split: "?c @ ?r = t" by (rule rstrip_prefix)
  have rb: "\<forall>x\<in>set ?r. x = BOM" by (auto dest: set_takeWhileD)
  show ?thesis
  proof (cases "list_ex is_linebreak t")
    case True
    then obtain x where x: "x \<in> set t" "is_linebreak x" by (auto simp: list_ex_iff)
    then have "x \<noteq> BOM" using bom_not_linebreak by auto
    with x rb split have xc: "x \<in> set ?c"
      by (metis Un_iff set_append)
    then have cne: "?c \<noteq> []" by (metis empty_iff list.set(1))
    have "takeWhile (\<lambda>c. \<not> is_linebreak c) (?c @ ?r) = takeWhile (\<lambda>c. \<not> is_linebreak c) ?c"
      using xc x(2) by (intro takeWhile_append1 [where x = x]) auto
    with split have "takeWhile (\<lambda>c. \<not> is_linebreak c) t = takeWhile (\<lambda>c. \<not> is_linebreak c) ?c"
      by simp
    with cne False c show ?thesis by (simp add: first_line_eq)
  next
    case nb: False
    with tail False have "last t \<noteq> BOM" by simp
    with False have "dropWhile (\<lambda>c. c = BOM) (rev t) = rev t"
      by (cases t rule: rev_cases) auto
    with c show ?thesis by simp
  qed
qed

lemma digits_of_digits: "\<forall>c\<in>set (digits_of n). is_digit c"
proof (induction n rule: digits_of.induct)
  case (1 n)
  show ?case
  proof (cases "n < 10")
    case True
    then show ?thesis by (subst digits_of.simps) (simp add: is_digit_def)
  next
    case False
    have "n mod 10 < 10" by simp
    then have "is_digit (48 + n mod 10)" unfolding is_digit_def by linarith
    with False 1 show ?thesis by (subst digits_of.simps) simp
  qed
qed

lemma str_int_no_quote: "39 \<notin> set (str_int n)"
  using digits_of_digits [of "nat n"] digits_of_digits [of "nat (- n)"]
  by (auto simp: str_int_def is_digit_def MINUS_def)

section \<open>Facts about the statement reader\<close>

lemma lex_literal:
  "39 \<notin> set v \<Longrightarrow> lex (InString a) (v @ 39 # rest) = lex (AfterQuote (rev v @ a)) rest"
  by (induction v arbitrary: a) (auto simp: SQUOTE_def)

lemma lex_literal0:
  "39 \<notin> set v \<Longrightarrow> lex (InString []) (v @ 39 # rest) = lex (AfterQuote (rev v)) rest"
  using lex_literal [of v "[]" rest] by simp

lemma read_generated_insert:
  assumes "39 \<notin> set v1" "39 \<notin> set v2" "39 \<notin> set v3" "39 \<notin> set v4" "39 \<notin> set v5"
    "39 \<notin> set v6" "39 \<notin> set v7" "39 \<notin> set v8"
  shows "read_insert (generate_insert_sql y v1 c v2 v3 v4 v5 v6 v7 v8 m f t h)
     = Some (asc ''thai_population'',
         [str_int y, v1, str_int c, v2, v3, v4, v5, v6, v7, v8,
          str_int m, str_int f, str_int t, str_int h])"
  using assms
  by (simp add: read_insert_def generate_insert_sql_def asc_def char_defs lex_start_def
      is_blank_def is_word_char_def is_digit_def lex_literal0 str_int_no_quote
      to_upper_def to_lower_def statement_end_def)

section \<open>The Fetcher: Thai year, URL and result\<close>

lemma year_url_1993:
  "year_url 1993 = asc ''https://stat.bora.dopa.go.th/new_stat/file/36/stat_c36.txt''"
  by (simp add: year_url_def convert_to_thai_year_def stat_url_def str_int_def
      digits_of.simps asc_def)

lemma fetch_trace:
  "trace (snd (get_data_stat_by_year net y w)) = trace w @ [Get (year_url y)]"
  by (simp add: get_data_stat_by_year_def year_url_def Let_def log_event_def split: sum.split)

text \<open>
  Claim C4. For every Gregorian year \<open>y\<close> the Thai year is \<open>(y + 543) - 2500\<close>, which is
  36 for 1993, and the one URL the Fetcher requests is
  \<open>https://stat.bora.dopa.go.th/new_stat/file/{thai_year}/stat_c{thai_year}.txt\<close> with the
  Thai year written twice; for 1993 it ends in \<open>36/stat_c36.txt\<close>.
\<close>

theorem thai_year_and_url:
  "convert_to_thai_year y = (y + 543) - 2500
   \<and> convert_to_thai_year 1993 = 36
   \<and> trace (snd (get_data_stat_by_year net y w))
       = trace w @ [Get (asc ''https://stat.bora.dopa.go.th/new_stat/file/''
                         @ str_int (convert_to_thai_year y) @ asc ''/stat_c''
                         @ str_int (convert_to_thai_year y) @ asc ''.txt'')]
   \<and> trace (snd (get_data_stat_by_year net 1993 w))
       = trace w @ [Get (asc ''https://stat.bora.dopa.go.th/new_stat/file/36/stat_c36.txt'')]"
proof -
  have a: "convert_to_thai_year y = (y + 543) - 2500" by (simp add: convert_to_thai_year_def)
  have b: "convert_to_thai_year 1993 = 36" by (simp add: convert_to_thai_year_def)
  have c: "year_url y = asc ''https://stat.bora.dopa.go.th/new_stat/file/''
                         @ str_int (convert_to_thai_year y) @ asc ''/stat_c''
                         @ str_int (convert_to_thai_year y) @ asc ''.txt''"
    by (simp add: year_url_def stat_url_def)
  show ?thesis using a b c fetch_trace [of net y w] fetch_trace [of net 1993 w] year_url_1993
    by simp
qed

text \<open>
  Claim C2, as stated, fails: the Fetcher has no handler around \<open>requests.get\<close>, so an
  exception of the request (a refused connection, a timeout) leaves the Fetcher as an
  exception and not as an \<open>Err\<close>.
\<close>

theorem fetcher_raises_counterexample:
  "fst (get_data_stat_by_year (\<lambda>url. Inl RequestException) 1993 w_empty) = Inl RequestException"
  by (simp add: get_data_stat_by_year_def Let_def)

text \<open>
  Claim C2, amended. For every year, whenever the request returns a response, the
  Fetcher returns a result: \<open>Ok\<close> with the response body when the response is \<open>ok\<close>, and
  \<open>Err\<close> with the response body otherwise; it returns the failure variant exactly when
  the response is not \<open>ok\<close>.
\<close>

theorem fetcher_result:
  assumes "net (stat_url (convert_to_thai_year year)) = Inr r"
  shows "fst (get_data_stat_by_year net year w)
           = Inr (if ok r then Ok (text r) else Err (text r))
         \<and> ((\<exists>e. fst (get_data_stat_by_year net year w) = Inr (Err e)) \<longleftrightarrow> \<not> ok r)"
  using assms by (simp add: get_data_stat_by_year_def Let_def)

theorem fetcher_result_witness:
  "fst (get_data_stat_by_year (\<lambda>url. Inr \<lparr>ok = False, text = asc ''Not Found''\<rparr>) 2000 w_empty)
     = Inr (Err (asc ''Not Found''))
   \<and> fst (get_data_stat_by_year (\<lambda>url. Inr \<lparr>ok = True, text = asc ''body''\<rparr>) 1993 w_empty)
     = Inr (Ok (asc ''body''))"
  using fetcher_result [of "\<lambda>url. Inr \<lparr>ok = False, text = asc ''Not Found''\<rparr>" 2000
          "\<lparr>ok = False, text = asc ''Not Found''\<rparr>" w_empty]
        fetcher_result [of "\<lambda>url. Inr \<lparr>ok = True, text = asc ''body''\<rparr>" 1993
          "\<lparr>ok = True, text = asc ''body''\<rparr>" w_empty]
  by simp

section \<open>The Parser: fields, coercion and the byte-order mark\<close>

lemma sample_fields:
  "extract_row (strip_chars [PIPE] sample_line)
     = [asc ''yymm'', asc ''001'', asc ''a'', asc ''b'', asc ''c'', asc ''d'', asc ''e'',
        asc ''f'', asc ''g'', asc ''1,234'', asc ''2,345'', asc ''3,579'', asc ''1,000'']"
  by (simp add: sample_line_def extract_row_def strip_chars_def lstrip_chars_def
      rstrip_chars_def asc_def PIPE_def)

lemma sample_ints:
  "string_to_int (asc ''001'') = Inr 1" "string_to_int (asc ''1,234'') = Inr 1234"
  "string_to_int (asc ''2,345'') = Inr 2345" "string_to_int (asc ''3,579'') = Inr 3579"
  "string_to_int (asc ''1,000'') = Inr 1000"
  by (simp_all add: string_to_int_def py_int_def ascii_form_def int_digits_def
      max_str_digits_def remove_char_def asc_def char_defs is_blank_def is_digit_def)

lemma string_to_int_comma:
  "string_to_int (u @ COMMA # v) = string_to_int (u @ v)"
  by (simp add: string_to_int_def remove_char_def)

lemma sample_statement:
  "row_statement year sample_line
       = Inr (generate_insert_sql year (asc ''yymm'') 1 (asc ''a'') (asc ''b'') (asc ''c'')
                (asc ''d'') (asc ''e'') (asc ''f'') (asc ''g'') 1234 2345 3579 1000)"
  unfolding row_statement_def Let_def sample_fields
  by (simp add: sample_ints)

text \<open>
  Claim C5. The well-formed line \<open>|yymm|001|a|b|c|d|e|f|g|1,234|2,345|3,579|1,000|\<close> has
  13 fields, \<open>001\<close> second and \<open>1,234\<close> tenth; coercion gives the integer 1 for \<open>cc_code\<close>
  and the integer 1234 for \<open>male\<close>, and the statement built for the line carries the five
  numbers without their commas. In general a comma anywhere in the text changes nothing
  in what \<open>string_to_int\<close> returns: commas are removed before parsing.
\<close>

theorem coercion_removes_commas:
  "length (extract_row (strip_chars [PIPE] sample_line)) = 13
   \<and> extract_row (strip_chars [PIPE] sample_line) ! 1 = asc ''001''
   \<and> extract_row (strip_chars [PIPE] sample_line) ! 9 = asc ''1,234''
   \<and> string_to_int (extract_row (strip_chars [PIPE] sample_line) ! 1) = Inr 1
   \<and> string_to_int (extract_row (strip_chars [PIPE] sample_line) ! 9) = Inr 1234
   \<and> row_statement year sample_line
       = Inr (generate_insert_sql year (asc ''yymm'') 1 (asc ''a'') (asc ''b'') (asc ''c'')
                (asc ''d'') (asc ''e'') (asc ''f'') (asc ''g'') 1234 2345 3579 1000)
   \<and> string_to_int (u @ COMMA # v) = string_to_int (u @ v)"
  unfolding sample_fields
  using sample_statement [of year] string_to_int_comma [of u v]
  by (simp add: sample_ints)

text \<open>
  Claim C9, as stated, fails in its second half: \<open>strip\<close> works on both ends, so a body
  of one line that ends with a byte-order mark loses it, although it has no leading
  one.
\<close>

theorem clean_text_trailing_bom_counterexample:
  "hd [97, BOM] \<noteq> BOM \<and> first_line [97, BOM] = Some [97, BOM]
    \<and> first_line (clean_text [97, BOM]) = Some [97]"
  by (simp add: first_line_def splitlines_def clean_text_eq BOM_def is_linebreak_def)

text \<open>
  Claim C9, amended. For every body that starts with a byte-order mark, the first line
  of the cleaned text has no leading byte-order mark; for every body without a leading
  byte-order mark, cleaning leaves the first line unchanged unless the body is a single
  line (it has no line boundary) that ends with a byte-order mark.
\<close>

theorem clean_text_first_line:
  "(\<forall>l. t \<noteq> [] \<and> hd t = BOM \<and> first_line (clean_text t) = Some l \<longrightarrow> l = [] \<or> hd l \<noteq> BOM)
   \<and> ((t = [] \<or> hd t \<noteq> BOM) \<and> (t = [] \<or> last t \<noteq> BOM \<or> list_ex is_linebreak t)
        \<longrightarrow> first_line (clean_text t) = first_line t)"
  using first_line_clean_no_bom clean_text_first_line_kept by blast

theorem clean_text_first_line_witness:
  "first_line (clean_text (BOM # asc ''ab'' @ [NL] @ asc ''cd'')) = Some (asc ''ab'')
   \<and> first_line (clean_text (asc ''ab'' @ [NL] @ asc ''cd'' @ [BOM])) = Some (asc ''ab'')
   \<and> first_line (asc ''ab'' @ [NL] @ asc ''cd'' @ [BOM]) = Some (asc ''ab'')"
  using clean_text_first_line [of "BOM # asc ''ab'' @ [NL] @ asc ''cd''"]
        clean_text_first_line [of "asc ''ab'' @ [NL] @ asc ''cd'' @ [BOM]"]
  by (simp add: first_line_eq clean_text_eq asc_def BOM_def NL_def is_linebreak_def)

section \<open>The loops\<close>

lemma fetch_eq:
  "get_data_stat_by_year net year w =
     (case net (year_url year) of
        Inl e \<Rightarrow> (Inl e, log_event (Get (year_url year)) w)
      | Inr r \<Rightarrow> (Inr (if ok r then Ok (text r) else Err (text r)),
                  log_event (Get (year_url year)) w))"
  by (simp add: get_data_stat_by_year_def year_url_def Let_def split: sum.split)


lemma loop_next:
  "net (year_url year) = Inr r \<Longrightarrow> ok r \<Longrightarrow>
   load_rows eng year (splitlines (clean_text (text r))) (log_event (Get (year_url year)) w)
     = (Inr u, w') \<Longrightarrow>
   driver_loop net eng year w = driver_loop net eng (year + 1) w'"
  by (subst driver_loop.simps) (simp add: fetch_eq)

lemma loop_abort:
  "net (year_url year) = Inr r \<Longrightarrow> ok r \<Longrightarrow>
   load_rows eng year (splitlines (clean_text (text r))) (log_event (Get (year_url year)) w)
     = (Inl e, w') \<Longrightarrow>
   driver_loop net eng year w = Some (Inl e, w')"
  by (subst driver_loop.simps) (simp add: fetch_eq)

lemma running_loop:
  "running net eng s t \<Longrightarrow>
   driver_loop net eng (fst s) (snd s) = driver_loop net eng (fst t) (snd t)"
proof (induction rule: running.induct)
  case (running_start s)
  show ?case by simp
next
  case (running_next s year w r w')
  then show ?case using loop_next [of net year r eng w "()" w'] by simp
qed

lemma sql_call_eq:
  "duckdb_sql_call eng q w =
     (case eng q (db w, fs w) of
        Inl e \<Rightarrow> (Inl e, log_event (Sql q) w)
      | Inr s \<Rightarrow> (Inr (), (log_event (Sql q) w)\<lparr>db := fst s, fs := snd s\<rparr>))"
  by (simp add: duckdb_sql_call_def Let_def log_event_def split: sum.split prod.split)

lemma sql_call_trace:
  "duckdb_sql_call eng q w = (out, w') \<Longrightarrow> trace w' = trace w @ [Sql q]"
  by (auto simp: sql_call_eq log_event_def split: sum.splits)


lemma sql_call_cases:
  "duckdb_sql_call eng q w = (out, w') \<Longrightarrow>
     (\<exists>e. out = Inl e \<and> eng q (db w, fs w) = Inl e \<and> w' = log_event (Sql q) w)
   \<or> (out = Inr () \<and> eng q (db w, fs w) = Inr (db w', fs w')
        \<and> trace w' = trace w @ [Sql q])"
  by (auto simp: sql_call_eq log_event_def split: sum.splits)


lemma load_rows_append:
  "load_rows eng year pre w = (Inr u, w1) \<Longrightarrow>
   load_rows eng year (pre @ rest) w = load_rows eng year rest w1"
proof (induction pre arbitrary: w)
  case Nil
  then show ?case by simp
next
  case (Cons row pre)
  obtain out wa where step: "load_row eng year row w = (out, wa)"
    by (cases "load_row eng year row w")
  show ?case
  proof (cases out)
    case (Inl e)
    with Cons.prems step show ?thesis by simp
  next
    case (Inr v)
    with Cons.prems step have "load_rows eng year pre wa = (Inr u, w1)" by simp
    from Cons.IH [OF this] step Inr show ?thesis by simp
  qed
qed

lemma load_row_accepted:
  assumes "load_row eng year row w = (Inr v, wa)"
  shows "\<exists>q. row_statement year row = Inr q \<and> eng q (db w, fs w) = Inr (db wa, fs wa)
           \<and> trace wa = trace w @ [Sql q]"
proof -
  from assms obtain q where q: "row_statement year row = Inr q"
    and call: "duckdb_sql_call eng q w = (Inr v, wa)"
    by (auto simp: load_row_def split: sum.splits)
  from sql_call_cases [OF call] q show ?thesis by auto
qed

lemma load_rows_ok_trace:
  "load_rows eng year rs w = (Inr u, w') \<Longrightarrow>
   list_all (\<lambda>row. \<not> isl (row_statement year row)) rs \<and>
   trace w' = trace w @ map Sql (statements_of year rs) \<and>
   engine_run eng (statements_of year rs) (db w, fs w) = Inr (db w', fs w')"
proof (induction rs arbitrary: w)
  case Nil
  then show ?case by simp
next
  case (Cons row rs)
  obtain out wa where step: "load_row eng year row w = (out, wa)"
    by (cases "load_row eng year row w")
  show ?case
  proof (cases out)
    case (Inl e)
    with Cons.prems step show ?thesis by simp
  next
    case (Inr v)
    with Cons.prems step have rest: "load_rows eng year rs wa = (Inr u, w')" by simp
    from step Inr load_row_accepted [of eng year row w v wa] obtain q where
      q: "row_statement year row = Inr q" "eng q (db w, fs w) = Inr (db wa, fs wa)"
        "trace wa = trace w @ [Sql q]"
      by auto
    from Cons.IH [OF rest] q show ?thesis by simp
  qed
qed

lemma mkdirs_append: "mkdirs (xs @ ys) = mkdirs xs @ mkdirs ys"
  by (induction xs rule: mkdirs.induct) simp_all

lemma requested_append: "requested (xs @ ys) = requested xs @ requested ys"
  by (induction xs rule: requested.induct) simp_all




lemma statements_sql: "statements (map Sql qs) = qs"
  by (induction qs) simp_all

lemma load_rows_frame:
  "load_rows eng year rs w = (out, w') \<Longrightarrow>
   mkdirs (trace w') = mkdirs (trace w) \<and> requested (trace w') = requested (trace w)"
proof (induction rs arbitrary: w)
  case Nil
  then show ?case by simp
next
  case (Cons row rs)
  obtain o1 wa where step: "load_row eng year row w = (o1, wa)"
    by (cases "load_row eng year row w")
  have wa: "mkdirs (trace wa) = mkdirs (trace w)
      \<and> requested (trace wa) = requested (trace w)"
  proof (cases "row_statement year row")
    case (Inl e)
    with step show ?thesis by (simp add: load_row_def)
  next
    case (Inr q)
    with step have "duckdb_sql_call eng q w = (o1, wa)" by (simp add: load_row_def)
    from sql_call_trace [OF this] show ?thesis
      by (simp add: mkdirs_append requested_append)
  qed
  show ?case
  proof (cases o1)
    case (Inl e)
    with Cons.prems step wa show ?thesis by auto
  next
    case (Inr v)
    with Cons.prems step have "load_rows eng year rs wa = (out, w')" by simp
    from Cons.IH [OF this] wa show ?thesis by simp
  qed
qed


lemma load_rows_bad_row:
  assumes pre: "load_rows eng year pre w = (Inr u, w1)"
      and bad: "row_statement year bad = Inl e"
  shows "load_rows eng year (pre @ bad # post) w = (Inl e, w1)"
  using load_rows_append [OF pre, of "bad # post"] bad by (simp add: load_row_def)


lemma string_to_int_raises:
  "py_int (remove_char COMMA v) = None \<Longrightarrow> string_to_int v = Inl ValueError"
  by (simp add: string_to_int_def)

lemma string_to_int_value:
  "py_int (remove_char COMMA v) = Some n \<Longrightarrow> string_to_int v = Inr n"
  by (simp add: string_to_int_def)

lemma string_to_int_error: "string_to_int v = Inl e \<Longrightarrow> e = ValueError"
  by (auto simp: string_to_int_def split: option.splits)

lemma row_statement_error: "row_statement year row = Inl e \<Longrightarrow> e = ValueError"
  by (auto simp: row_statement_def Let_def split: if_splits sum.splits
      dest: string_to_int_error)

lemma row_statement_bad:
  assumes "length (extract_row (strip_chars [PIPE] row)) \<noteq> 13
     \<or> py_int (remove_char COMMA (extract_row (strip_chars [PIPE] row) ! 1)) = None
     \<or> py_int (remove_char COMMA (extract_row (strip_chars [PIPE] row) ! 9)) = None
     \<or> py_int (remove_char COMMA (extract_row (strip_chars [PIPE] row) ! 10)) = None
     \<or> py_int (remove_char COMMA (extract_row (strip_chars [PIPE] row) ! 11)) = None
     \<or> py_int (remove_char COMMA (extract_row (strip_chars [PIPE] row) ! 12)) = None"
  shows "row_statement year row = Inl ValueError"
proof -
  have "isl (row_statement year row)"
    using assms
    by (auto simp: row_statement_def Let_def isl_def string_to_int_raises split: sum.splits)
  then obtain e where "row_statement year row = Inl e" by (auto simp: isl_def)
  with row_statement_error [OF this] show ?thesis by simp
qed

lemma row_statement_good:
  assumes "extract_row (strip_chars [PIPE] row) = fl" "length fl = 13"
    "py_int (remove_char COMMA (fl ! 1)) = Some cc"
    "py_int (remove_char COMMA (fl ! 9)) = Some m"
    "py_int (remove_char COMMA (fl ! 10)) = Some f"
    "py_int (remove_char COMMA (fl ! 11)) = Some t"
    "py_int (remove_char COMMA (fl ! 12)) = Some h"
  shows "row_statement year row =
     Inr (generate_insert_sql year (fl ! 0) cc (fl ! 2) (fl ! 3) (fl ! 4)
            (fl ! 5) (fl ! 6) (fl ! 7) (fl ! 8) m f t h)"
  using assms by (simp add: row_statement_def Let_def string_to_int_value)




lemma statements_year_events:
  "statements (year_events net y) = statements_of y (body_lines net y)"
  by (simp add: year_events_def statements_sql)


lemma running_frame:
  "running net eng s t \<Longrightarrow> mkdirs (trace (snd t)) = mkdirs (trace (snd s))"
proof (induction rule: running.induct)
  case (running_start s)
  show ?case by simp
next
  case (running_next s year w r w')
  from load_rows_frame [OF running_next.hyps(4)] running_next.IH
  show ?case by (simp add: log_event_def mkdirs_append)
qed


lemma path_parts_datasets: "path_parts (asc ''.datasets'') = [asc ''.datasets'']"
  by (simp add: path_parts_def asc_def SLASH_def DOT_def)

lemma export_trace:
  "write_into_hive_partition eng w = (out, w') \<Longrightarrow>
     mkdirs (trace w') = mkdirs (trace w) @ [[asc ''.datasets'']]
     \<and> (out = Inr () \<longrightarrow> trace w' = trace w @ [Mkdir [asc ''.datasets''], Sql copy_sql])"
  by (auto simp: write_into_hive_partition_def path_parts_datasets path_mkdir_def Let_def
      log_event_def sql_call_eq mkdirs_append split: sum.splits)


lemma create_trace:
  "create_duck_db_table eng w = (out, w') \<Longrightarrow> trace w' = trace w @ [Sql create_table_sql]"
  unfolding create_duck_db_table_def by (rule sql_call_trace)


lemma years_list: "[1993..1999] = [1993, 1994, 1995, 1996, 1997, 1998, 1999 :: int]"
  by (simp add: upto_rec1)








lemma main_abort:
  assumes c: "create_duck_db_table eng w = (Inr (), w1)"
      and r: "running net eng (start_year, w1) (y, wy)"
      and f: "net (year_url y) = Inr rr" "ok rr"
      and l: "load_rows eng y (splitlines (clean_text (text rr)))
                (log_event (Get (year_url y)) wy) = (Inl e, w')"
  shows "main net eng w = Some (Inl e, w')"
proof -
  have "driver_loop net eng y wy = Some (Inl e, w')"
    using loop_abort [of net y rr eng wy e w'] f l by simp
  with running_loop [OF r] have "driver_loop net eng start_year w1 = Some (Inl e, w')"
    by simp
  with c show ?thesis by (simp add: main_def)
qed


lemma main_create_refused:
  "create_duck_db_table eng w = (Inl e, w1) \<Longrightarrow> main net eng w = Some (Inl e, w1)"
  by (simp add: main_def)







lemma year_urls:
  "year_url 1993 = asc ''https://stat.bora.dopa.go.th/new_stat/file/36/stat_c36.txt''"
  "year_url 1994 = asc ''https://stat.bora.dopa.go.th/new_stat/file/37/stat_c37.txt''"
  "year_url 1995 = asc ''https://stat.bora.dopa.go.th/new_stat/file/38/stat_c38.txt''"
  "year_url 1996 = asc ''https://stat.bora.dopa.go.th/new_stat/file/39/stat_c39.txt''"
  "year_url 1997 = asc ''https://stat.bora.dopa.go.th/new_stat/file/40/stat_c40.txt''"
  "year_url 1998 = asc ''https://stat.bora.dopa.go.th/new_stat/file/41/stat_c41.txt''"
  "year_url 1999 = asc ''https://stat.bora.dopa.go.th/new_stat/file/42/stat_c42.txt''"
  "year_url 2000 = asc ''https://stat.bora.dopa.go.th/new_stat/file/43/stat_c43.txt''"
  by (simp_all add: year_url_def convert_to_thai_year_def stat_url_def str_int_def
      digits_of.simps asc_def)



lemma sample_lines: "splitlines (clean_text sample_body) = [sample_line]"
  by (simp add: sample_body_def sample_line_def clean_text_eq splitlines_def asc_def
      BOM_def NL_def CR_def is_linebreak_def)



lemma accept_all_call:
  "duckdb_sql_call accept_all q \<lparr>db = (), fs = f, trace = tr\<rparr>
     = (Inr (), \<lparr>db = (), fs = f, trace = tr @ [Sql q]\<rparr>)"
  by (simp add: duckdb_sql_call_def accept_all_def log_event_def Let_def)












lemma load_rows_raises:
  "row \<in> set rs \<Longrightarrow> isl (row_statement year row) \<Longrightarrow> isl (fst (load_rows eng year rs w))"
proof (induction rs arbitrary: w)
  case Nil
  then show ?case by simp
next
  case (Cons r rs)
  obtain o1 wa where step: "load_row eng year r w = (o1, wa)"
    by (cases "load_row eng year r w")
  show ?case
  proof (cases o1)
    case (Inl e)
    with step show ?thesis by simp
  next
    case (Inr u)
    with step have "\<not> isl (row_statement year r)"
      by (auto simp: load_row_def isl_def split: sum.splits)
    with Cons.prems have "row \<in> set rs" by auto
    from Cons.IH [OF this Cons.prems(2), of wa] step Inr show ?thesis by simp
  qed
qed

lemma load_rows_trace_prefix:
  "load_rows eng year rs w = (out, w') \<Longrightarrow>
   \<exists>k. trace w' = trace w @ map Sql (take k (statements_of year rs))"
proof (induction rs arbitrary: w)
  case Nil
  then show ?case by simp
next
  case (Cons r rs)
  show ?case
  proof (cases "row_statement year r")
    case (Inl e)
    with Cons.prems have "w' = w" by (simp add: load_row_def)
    then have "trace w' = trace w @ map Sql (take 0 (statements_of year (r # rs)))" by simp
    then show ?thesis by blast
  next
    case (Inr q)
    obtain o1 wa where call: "duckdb_sql_call eng q w = (o1, wa)"
      by (cases "duckdb_sql_call eng q w")
    from sql_call_trace [OF call] have wa: "trace wa = trace w @ [Sql q]" .
    show ?thesis
    proof (cases o1)
      case (Inl e)
      with Cons.prems Inr call have "w' = wa" by (simp add: load_row_def)
      with wa Inr have "trace w' = trace w @ map Sql (take 1 (statements_of year (r # rs)))"
        by simp
      then show ?thesis by blast
    next
      case u: (Inr u)
      with Cons.prems Inr call have "load_rows eng year rs wa = (out, w')"
        by (simp add: load_row_def)
      from Cons.IH [OF this] obtain k where
        "trace w' = trace wa @ map Sql (take k (statements_of year rs))" by blast
      with wa Inr have "trace w' = trace w @ map Sql (take (Suc k) (statements_of year (r # rs)))"
        by simp
      then show ?thesis by blast
    qed
  qed
qed

lemma statements_of_bad_row:
  "isl (row_statement year bad) \<Longrightarrow>
   statements_of year (pre @ bad # post) = statements_of year pre"
  by (induction pre) (auto simp: isl_def split: sum.splits)

text \<open>What \<open>int\<close> refuses and what it accepts, on sample texts: a text that is no number,
  an empty text, a decimal point, a blank inside, a doubled underscore and a byte-order
  mark are refused, as is a number of more than 4300 digits; blanks around the number, a
  sign, single underscores, and the digits and blanks of other scripts are accepted.\<close>

lemma py_int_refuses:
  "py_int (asc ''n/a'') = None" "py_int (asc ''x'') = None" "py_int [] = None"
  "py_int (asc ''1.5'') = None" "py_int (asc ''12 3'') = None" "py_int (asc ''--1'') = None"
  "py_int (asc ''1__0'') = None" "py_int [BOM, 53] = None" "py_int [0x1C, 53] = None"
  by (simp_all add: py_int_def ascii_form_def int_digits_def max_str_digits_def asc_def
      char_defs is_blank_def is_digit_def unicode_blanks_def unicode_decimal_def decimal_runs_def)

lemma py_int_accepts:
  "py_int (asc '' 12 '') = Some 12" "py_int (asc ''-7'') = Some (- 7)"
  "py_int (asc ''+1_000'') = Some 1000" "py_int [0xE51, 0xE52] = Some 12"
  "py_int [0xA0, 53] = Some 5" "py_int [0xFF11, 0x662, 0x2003] = Some 12"
  by (simp_all add: py_int_def ascii_form_def int_digits_def max_str_digits_def asc_def
      char_defs is_blank_def is_digit_def unicode_blanks_def unicode_decimal_def decimal_runs_def)

lemma py_int_digit_limit:
  assumes "max_str_digits < n"
  shows "py_int (replicate n 48) = None"
proof -
  from assms obtain k where n: "n = Suc k" by (cases n) auto
  have a: "those (map ascii_form (replicate n 48)) = Some (replicate n 48)"
    by (induction n) (simp_all add: ascii_form_def)
  have c: "length (filter is_digit (replicate n 48)) = n"
    by (induction n) (simp_all add: is_digit_def)
  have p: "py_int (replicate n 48) =
      (case replicate n 48 of
         [] \<Rightarrow> None
       | c # cs \<Rightarrow>
           if c = MINUS then map_option (\<lambda>n. - int n) (int_digits cs)
           else if c = PLUS then map_option int (int_digits cs)
           else map_option int (int_digits (replicate n 48)))"
    unfolding py_int_def a by (simp add: Let_def is_blank_def)
  have i: "int_digits (replicate n 48) = None"
    using assms c by (simp add: int_digits_def)
  show ?thesis
    unfolding p i by (simp add: n MINUS_def PLUS_def)
qed

lemma string_to_int_nonnumeric:
  "string_to_int (asc ''n/a'') = Inl ValueError" "string_to_int (asc ''x'') = Inl ValueError"
  "string_to_int [] = Inl ValueError" "string_to_int (asc ''1.5'') = Inl ValueError"
  "string_to_int (asc '','') = Inl ValueError"
  by (simp_all add: string_to_int_def py_int_def ascii_form_def int_digits_def
      max_str_digits_def remove_char_def asc_def char_defs is_blank_def is_digit_def)

lemma nonnumeric_fields:
  "extract_row (strip_chars [PIPE] nonnumeric_line)
     = [asc ''yymm'', asc ''002'', asc ''a'', asc ''b'', asc ''c'', asc ''d'', asc ''e'',
        asc ''f'', asc ''g'', asc ''n/a'', asc ''2,345'', asc ''3,579'', asc ''1,000'']"
  by (simp add: nonnumeric_line_def extract_row_def strip_chars_def lstrip_chars_def
      rstrip_chars_def asc_def PIPE_def)

lemma short_fields:
  "extract_row (strip_chars [PIPE] short_line) = [asc ''6012'', asc ''x'']"
  by (simp add: short_line_def extract_row_def strip_chars_def lstrip_chars_def
      rstrip_chars_def asc_def PIPE_def)

lemma nonnumeric_male:
  "py_int (remove_char COMMA (extract_row (strip_chars [PIPE] nonnumeric_line) ! 9)) = None"
  unfolding nonnumeric_fields
  by (simp add: py_int_def ascii_form_def int_digits_def max_str_digits_def remove_char_def
      asc_def char_defs is_blank_def is_digit_def)

lemma malformed_statements:
  "row_statement year nonnumeric_line = Inl ValueError"
  "row_statement year short_line = Inl ValueError"
  using nonnumeric_male by (auto intro!: row_statement_bad simp: short_fields)

text \<open>
  Claim C3. Each line is stripped of every leading and trailing \<open>|\<close> and split on \<open>|\<close>; a
  line that gives exactly 13 fields whose five numeric fields are numbers for \<open>int\<close> once
  their commas are gone becomes one statement with the fields in the fixed order of the
  data model. When the loop, after the table's creation and any number of good rounds,
  fetches a body with a line \<open>bad\<close> that does not give 13 fields, or has a numeric field
  that \<open>int\<close> refuses once its commas are gone, the whole run ends with an exception: no
  statement is sent for \<open>bad\<close> (it is not skipped) or for any later line, no further year
  is fetched and the Exporter is not called. When the lines before \<open>bad\<close> load, the
  exception is the \<open>ValueError\<close> of \<open>bad\<close> and the run ends in the world reached after
  them.
\<close>

theorem malformed_row_aborts:
  assumes create: "create_duck_db_table eng w0 = (Inr (), w1)"
      and reach: "running net eng (start_year, w1) (year, w)"
      and fetch: "net (year_url year) = Inr r" "ok r"
      and lines: "splitlines (clean_text (text r)) = pre @ bad # post"
      and bad: "length (extract_row (strip_chars [PIPE] bad)) \<noteq> 13
        \<or> py_int (remove_char COMMA (extract_row (strip_chars [PIPE] bad) ! 1)) = None
        \<or> py_int (remove_char COMMA (extract_row (strip_chars [PIPE] bad) ! 9)) = None
        \<or> py_int (remove_char COMMA (extract_row (strip_chars [PIPE] bad) ! 10)) = None
        \<or> py_int (remove_char COMMA (extract_row (strip_chars [PIPE] bad) ! 11)) = None
        \<or> py_int (remove_char COMMA (extract_row (strip_chars [PIPE] bad) ! 12)) = None"
  shows "(\<exists>e w' k. main net eng w0 = Some (Inl e, w')
            \<and> trace w' = trace w @ Get (year_url year)
                            # map Sql (take k (statements_of year pre))
            \<and> mkdirs (trace w') = mkdirs (trace w0))
     \<and> (\<forall>w2. load_rows eng year pre (log_event (Get (year_url year)) w) = (Inr (), w2)
           \<longrightarrow> main net eng w0 = Some (Inl ValueError, w2)
               \<and> trace w2 = trace w @ Get (year_url year) # map Sql (statements_of year pre))
     \<and> (\<forall>line fl cc m f t h.
           extract_row (strip_chars [PIPE] line) = fl \<and> length fl = 13
           \<and> py_int (remove_char COMMA (fl ! 1)) = Some cc
           \<and> py_int (remove_char COMMA (fl ! 9)) = Some m
           \<and> py_int (remove_char COMMA (fl ! 10)) = Some f
           \<and> py_int (remove_char COMMA (fl ! 11)) = Some t
           \<and> py_int (remove_char COMMA (fl ! 12)) = Some h
           \<longrightarrow> row_statement year line =
                 Inr (generate_insert_sql year (fl ! 0) cc (fl ! 2) (fl ! 3) (fl ! 4)
                        (fl ! 5) (fl ! 6) (fl ! 7) (fl ! 8) m f t h))"
proof -
  let ?wg = "log_event (Get (year_url year)) w"
  let ?ls = "splitlines (clean_text (text r))"
  from row_statement_bad [OF bad] have b: "row_statement year bad = Inl ValueError" .
  then have bl: "isl (row_statement year bad)" by simp
  have main_of: "main net eng w0 = Some (Inl e, w')"
    if "load_rows eng year ?ls ?wg = (Inl e, w')" for e w'
    using main_abort [OF create reach fetch that] .
  have first: "\<exists>e w' k. main net eng w0 = Some (Inl e, w')
            \<and> trace w' = trace w @ Get (year_url year)
                            # map Sql (take k (statements_of year pre))
            \<and> mkdirs (trace w') = mkdirs (trace w0)"
  proof -
    obtain o1 w' where l: "load_rows eng year ?ls ?wg = (o1, w')"
      by (cases "load_rows eng year ?ls ?wg")
    from load_rows_raises [of bad ?ls year eng ?wg] bl lines l
    obtain e where e: "o1 = Inl e" by (cases o1) auto
    from load_rows_trace_prefix [OF l] lines statements_of_bad_row [OF bl, of pre post]
    obtain k where "trace w' = trace ?wg @ map Sql (take k (statements_of year pre))"
      by auto
    then have t: "trace w' = trace w @ Get (year_url year)
                            # map Sql (take k (statements_of year pre))"
      by (simp add: log_event_def)
    from load_rows_frame [OF l] running_frame [OF reach] create_trace [OF create]
    have k: "mkdirs (trace w') = mkdirs (trace w0)"
      by (simp add: log_event_def mkdirs_append)
    from main_of l e t k show ?thesis by blast
  qed
  have second: "main net eng w0 = Some (Inl ValueError, w2)
               \<and> trace w2 = trace w @ Get (year_url year) # map Sql (statements_of year pre)"
    if pre: "load_rows eng year pre ?wg = (Inr (), w2)" for w2
  proof -
    from load_rows_bad_row [OF pre b, of post] lines
    have "load_rows eng year ?ls ?wg = (Inl ValueError, w2)" by simp
    from main_of [OF this] load_rows_ok_trace [OF pre] show ?thesis
      by (simp add: log_event_def)
  qed
  have third: "\<forall>line fl cc m f t h.
           extract_row (strip_chars [PIPE] line) = fl \<and> length fl = 13
           \<and> py_int (remove_char COMMA (fl ! 1)) = Some cc
           \<and> py_int (remove_char COMMA (fl ! 9)) = Some m
           \<and> py_int (remove_char COMMA (fl ! 10)) = Some f
           \<and> py_int (remove_char COMMA (fl ! 11)) = Some t
           \<and> py_int (remove_char COMMA (fl ! 12)) = Some h
           \<longrightarrow> row_statement year line =
                 Inr (generate_insert_sql year (fl ! 0) cc (fl ! 2) (fl ! 3) (fl ! 4)
                        (fl ! 5) (fl ! 6) (fl ! 7) (fl ! 8) m f t h)"
    using row_statement_good by blast
  from first second third show ?thesis by blast
qed

lemma broken_lines:
  "splitlines (clean_text broken_body) = [sample_line] @ nonnumeric_line # [sample_line]"
  by (simp add: broken_body_def sample_line_def nonnumeric_line_def clean_text_eq splitlines_def
      asc_def BOM_def NL_def CR_def is_linebreak_def)

theorem malformed_row_aborts_witness:
  "main broken_net accept_all w_empty
     = Some (Inl ValueError,
         \<lparr>db = (), fs = Map.empty,
          trace = [Sql create_table_sql,
                   Get (year_url 1993),
                   Sql (generate_insert_sql 1993 (asc ''yymm'') 1 (asc ''a'') (asc ''b'')
                          (asc ''c'') (asc ''d'') (asc ''e'') (asc ''f'') (asc ''g'')
                          1234 2345 3579 1000),
                   Get (year_url 1994),
                   Sql (generate_insert_sql 1994 (asc ''yymm'') 1 (asc ''a'') (asc ''b'')
                          (asc ''c'') (asc ''d'') (asc ''e'') (asc ''f'') (asc ''g'')
                          1234 2345 3579 1000)]\<rparr>)"
proof -
  let ?q = "\<lambda>y. generate_insert_sql y (asc ''yymm'') 1 (asc ''a'') (asc ''b'')
                          (asc ''c'') (asc ''d'') (asc ''e'') (asc ''f'') (asc ''g'')
                          1234 2345 3579 1000"
  let ?w1 = "\<lparr>db = (), fs = Map.empty, trace = [Sql create_table_sql]\<rparr>"
  let ?w = "\<lparr>db = (), fs = Map.empty,
             trace = [Sql create_table_sql, Get (year_url 1993), Sql (?q 1993)]\<rparr>"
  let ?w2 = "\<lparr>db = (), fs = Map.empty,
             trace = [Sql create_table_sql, Get (year_url 1993), Sql (?q 1993),
                      Get (year_url 1994), Sql (?q 1994)]\<rparr>"
  have ne: "year_url 1994 \<noteq> year_url 1993" by (simp add: year_urls asc_def)
  have create: "create_duck_db_table accept_all w_empty = (Inr (), ?w1)"
    by (simp add: create_duck_db_table_def w_empty_def accept_all_call)
  have n93: "broken_net (year_url 1993) = Inr \<lparr>ok = True, text = sample_body\<rparr>"
    by (simp add: broken_net_def)
  have l93: "load_rows accept_all 1993 (splitlines (clean_text (text \<lparr>ok = True, text = sample_body\<rparr>)))
               (log_event (Get (year_url 1993)) ?w1) = (Inr (), ?w)"
    by (simp add: sample_lines load_row_def sample_statement log_event_def accept_all_call)
  have reach: "running broken_net accept_all (start_year, ?w1) (1994, ?w)"
    using running_next [of broken_net accept_all "(1993, ?w1)" 1993 ?w1
            "\<lparr>ok = True, text = sample_body\<rparr>" ?w] running_start [of broken_net accept_all "(1993, ?w1)"]
          n93 l93
    by (simp add: start_year_def)
  have n94: "broken_net (year_url 1994) = Inr \<lparr>ok = True, text = broken_body\<rparr>"
    using ne by (simp add: broken_net_def)
  have ok94: "ok \<lparr>ok = True, text = broken_body\<rparr>" by simp
  have lines: "splitlines (clean_text (text \<lparr>ok = True, text = broken_body\<rparr>))
      = [sample_line] @ nonnumeric_line # [sample_line]"
    by (simp add: broken_lines)
  have pre: "load_rows accept_all 1994 [sample_line] (log_event (Get (year_url 1994)) ?w) = (Inr (), ?w2)"
    by (simp add: load_row_def sample_statement log_event_def accept_all_call)
  have bad: "length (extract_row (strip_chars [PIPE] nonnumeric_line)) \<noteq> 13
        \<or> py_int (remove_char COMMA (extract_row (strip_chars [PIPE] nonnumeric_line) ! 1)) = None
        \<or> py_int (remove_char COMMA (extract_row (strip_chars [PIPE] nonnumeric_line) ! 9)) = None
        \<or> py_int (remove_char COMMA (extract_row (strip_chars [PIPE] nonnumeric_line) ! 10)) = None
        \<or> py_int (remove_char COMMA (extract_row (strip_chars [PIPE] nonnumeric_line) ! 11)) = None
        \<or> py_int (remove_char COMMA (extract_row (strip_chars [PIPE] nonnumeric_line) ! 12)) = None"
    using nonnumeric_male by blast
  from malformed_row_aborts [OF create reach n94 ok94 lines bad,
         THEN conjunct2, THEN conjunct1, rule_format, OF pre]
  show ?thesis by simp
qed

section \<open>The statement text\<close>

lemma generate_insert_sql_splice:
  "generate_insert_sql y v1 c v2 v3 v4 v5 v6 v7 v8 m f t h
     = asc ''INSERT INTO thai_population'' @ [NL] @ asc ''VALUES ('' @ [NL]
       @ concat (map (\<lambda>v. asc ''    '' @ quoted v @ asc '','' @ [NL])
           [str_int y, v1, str_int c, v2, v3, v4, v5, v6, v7, v8,
            str_int m, str_int f, str_int t])
       @ asc ''    '' @ quoted (str_int h) @ [NL] @ asc '')''"
  by (simp add: generate_insert_sql_def quoted_def)

lemma apostrophe_unreadable:
  "read_insert (generate_insert_sql 1993 (asc ''yymm'') 1 apostrophe_name (asc ''b'') (asc ''c'')
       (asc ''d'') (asc ''e'') (asc ''f'') (asc ''g'') 1234 2345 3579 1000) = None"
  by (simp add: read_insert_def generate_insert_sql_def apostrophe_name_def asc_def char_defs
      lex_start_def is_blank_def is_word_char_def is_digit_def str_int_def digits_of.simps
      statement_end_def)

text \<open>
  Claim C10. \<open>generate_insert_sql\<close> escapes nothing: its text is the fixed head, then each
  of the 14 arguments as it is between two single quotes, one to a line. So when no
  string argument holds an apostrophe, the text read by SQL's lexical rules is the
  insertion of exactly those 14 values into \<open>thai_population\<close>; and for the description
  \<open>Nakhon's\<close> the text is no single-row insertion at all (its last literal never
  ends).
\<close>

theorem insert_text_splices_verbatim:
  "generate_insert_sql y v1 c v2 v3 v4 v5 v6 v7 v8 m f t h
     = asc ''INSERT INTO thai_population'' @ [NL] @ asc ''VALUES ('' @ [NL]
       @ concat (map (\<lambda>v. asc ''    '' @ quoted v @ asc '','' @ [NL])
           [str_int y, v1, str_int c, v2, v3, v4, v5, v6, v7, v8,
            str_int m, str_int f, str_int t])
       @ asc ''    '' @ quoted (str_int h) @ [NL] @ asc '')''
   \<and> (SQUOTE \<notin> set v1 \<and> SQUOTE \<notin> set v2 \<and> SQUOTE \<notin> set v3 \<and> SQUOTE \<notin> set v4
        \<and> SQUOTE \<notin> set v5 \<and> SQUOTE \<notin> set v6 \<and> SQUOTE \<notin> set v7 \<and> SQUOTE \<notin> set v8
      \<longrightarrow> read_insert (generate_insert_sql y v1 c v2 v3 v4 v5 v6 v7 v8 m f t h)
            = Some (asc ''thai_population'',
                [str_int y, v1, str_int c, v2, v3, v4, v5, v6, v7, v8,
                 str_int m, str_int f, str_int t, str_int h]))
   \<and> SQUOTE \<in> set apostrophe_name
   \<and> read_insert (generate_insert_sql 1993 (asc ''yymm'') 1 apostrophe_name (asc ''b'') (asc ''c'')
       (asc ''d'') (asc ''e'') (asc ''f'') (asc ''g'') 1234 2345 3579 1000) = None"
proof -
  have q: "SQUOTE \<in> set apostrophe_name" by (simp add: apostrophe_name_def)
  have r: "SQUOTE \<notin> set v1 \<and> SQUOTE \<notin> set v2 \<and> SQUOTE \<notin> set v3 \<and> SQUOTE \<notin> set v4
        \<and> SQUOTE \<notin> set v5 \<and> SQUOTE \<notin> set v6 \<and> SQUOTE \<notin> set v7 \<and> SQUOTE \<notin> set v8
      \<longrightarrow> read_insert (generate_insert_sql y v1 c v2 v3 v4 v5 v6 v7 v8 m f t h)
            = Some (asc ''thai_population'',
                [str_int y, v1, str_int c, v2, v3, v4, v5, v6, v7, v8,
                 str_int m, str_int f, str_int t, str_int h])"
    using read_generated_insert [of v1 v2 v3 v4 v5 v6 v7 v8 y c m f t h]
    by (simp add: SQUOTE_def)
  from generate_insert_sql_splice [of y v1 c v2 v3 v4 v5 v6 v7 v8 m f t h] r q apostrophe_unreadable
  show ?thesis by blast
qed

lemma str_int_samples:
  "str_int 1993 = asc ''1993''" "str_int 1 = asc ''1''" "str_int 1234 = asc ''1234''"
  "str_int 2345 = asc ''2345''" "str_int 3579 = asc ''3579''" "str_int 1000 = asc ''1000''"
  by (simp_all add: str_int_def digits_of.simps asc_def)

theorem insert_text_splices_verbatim_witness:
  "read_insert (generate_insert_sql 1993 (asc ''yymm'') 1 (asc ''a'') (asc ''b'') (asc ''c'')
       (asc ''d'') (asc ''e'') (asc ''f'') (asc ''g'') 1234 2345 3579 1000)
     = Some (asc ''thai_population'',
         [asc ''1993'', asc ''yymm'', asc ''1'', asc ''a'', asc ''b'', asc ''c'', asc ''d'',
          asc ''e'', asc ''f'', asc ''g'', asc ''1234'', asc ''2345'', asc ''3579'', asc ''1000''])"
proof -
  have h: "SQUOTE \<notin> set (asc ''yymm'') \<and> SQUOTE \<notin> set (asc ''a'')
      \<and> SQUOTE \<notin> set (asc ''b'') \<and> SQUOTE \<notin> set (asc ''c'')
      \<and> SQUOTE \<notin> set (asc ''d'') \<and> SQUOTE \<notin> set (asc ''e'')
      \<and> SQUOTE \<notin> set (asc ''f'') \<and> SQUOTE \<notin> set (asc ''g'')"
    by (simp add: asc_def SQUOTE_def)
  from insert_text_splices_verbatim [of 1993 "asc ''yymm''" 1 "asc ''a''" "asc ''b''" "asc ''c''"
       "asc ''d''" "asc ''e''" "asc ''f''" "asc ''g''" 1234 2345 3579 1000,
       THEN conjunct2, THEN conjunct1, rule_format, OF h]
  show ?thesis by (simp add: str_int_samples)
qed

section \<open>The primary key\<close>


lemma read_copy_text:
  "read_copy copy_sql = Some (asc ''thai_population'', asc ''./datasets/thai_population'')"
  by (simp add: read_copy_def copy_sql_def join_lines_def asc_def char_defs
      lex_start_def is_blank_def is_word_char_def is_digit_def to_upper_def to_lower_def)

lemma copy_not_create: "read_create copy_sql = None"
  by (simp add: read_create_def copy_sql_def join_lines_def asc_def char_defs
      lex_start_def is_blank_def is_word_char_def is_digit_def to_upper_def to_lower_def)






lemma decimal_value_append:
  "decimal_value acc (xs @ ys) =
     (case decimal_value acc xs of None \<Rightarrow> None | Some a \<Rightarrow> decimal_value a ys)"
  by (induction xs arbitrary: acc) simp_all

lemma decimal_value_digits_of: "decimal_value 0 (digits_of n) = Some n"
proof (induction n rule: digits_of.induct)
  case (1 n)
  show ?case
  proof (cases "n < 10")
    case True
    then show ?thesis by (subst digits_of.simps) (simp add: is_digit_def)
  next
    case False
    have "n mod 10 < 10" by simp
    then have d: "is_digit (48 + n mod 10)" unfolding is_digit_def by linarith
    from False 1 have "decimal_value 0 (digits_of (n div 10)) = Some (n div 10)" by simp
    with False d show ?thesis
      by (subst digits_of.simps) (simp add: decimal_value_append)
  qed
qed

lemma digits_of_Cons: "\<exists>c cs. digits_of n = c # cs \<and> is_digit c"
proof -
  have "digits_of n \<noteq> []"
    by (subst digits_of.simps) simp
  then obtain c cs where "digits_of n = c # cs" by (cases "digits_of n") auto
  with digits_of_digits [of n] show ?thesis by auto
qed

lemma signed_decimal_str_int: "signed_decimal (str_int i) = Some i"
proof (cases "i < 0")
  case True
  obtain c cs where "digits_of (nat (- i)) = c # cs" using digits_of_Cons by blast
  with True decimal_value_digits_of [of "nat (- i)"] show ?thesis
    by (simp add: signed_decimal_def str_int_def)
next
  case False
  obtain c cs where c: "digits_of (nat i) = c # cs" "is_digit c" using digits_of_Cons by blast
  then have "c \<noteq> MINUS" by (auto simp: is_digit_def MINUS_def)
  with False c decimal_value_digits_of [of "nat i"] show ?thesis
    by (simp add: signed_decimal_def str_int_def)
qed

lemma cast_integer_str_int:
  "fits_integer i \<Longrightarrow> cast_value INTEGER (str_int i) = Inr (IntV i)"
  by (simp add: cast_value_def signed_decimal_str_int fits_integer_def)


























section \<open>The Exporter's directory\<close>

lemma output_path_parts:
  "path_parts (asc ''./datasets/thai_population'') = [asc ''datasets'', asc ''thai_population'']"
  by (simp add: path_parts_def asc_def SLASH_def DOT_def)

text \<open>The engine's \<open>COPY\<close> on a working directory without \<open>datasets\<close>: the
  directory above its target is missing, and the statement raises.\<close>

lemma copy_without_directory:
  "duckdb_engine copy_sql ([asc ''thai_population'' \<mapsto> tb], [[asc ''.datasets''] \<mapsto> Dir])
     = Inl (DuckDBError IOException)"
proof -
  have "[asc ''datasets''] \<noteq> [asc ''.datasets'']" by (simp add: asc_def)
  then show ?thesis
    by (simp add: duckdb_engine_def copy_not_create read_copy_text output_path_parts
        copy_target_def)
qed

text \<open>
  Claim C7, the code's behaviour where it departs from the claim. The one directory the
  Exporter asks for is \<open>.datasets\<close>, a name with a leading dot and no slash, while
  \<open>COPY\<close> is told to write under \<open>./datasets/thai_population\<close>. On an empty working
  directory the Exporter's own call leaves \<open>.datasets\<close> created and neither \<open>datasets\<close>
  nor \<open>datasets/thai_population\<close> in existence.
\<close>

theorem exporter_makes_other_directory:
  "mkdirs (trace (snd (write_into_hive_partition eng w))) = mkdirs (trace w) @ [[asc ''.datasets'']]
   \<and> path_parts (asc ''./datasets/thai_population'') = [asc ''datasets'', asc ''thai_population'']
   \<and> fst (write_into_hive_partition accept_all w_empty) = Inr ()
   \<and> fs (snd (write_into_hive_partition accept_all w_empty)) [asc ''.datasets''] = Some Dir
   \<and> fs (snd (write_into_hive_partition accept_all w_empty)) [asc ''datasets''] = None
   \<and> fs (snd (write_into_hive_partition accept_all w_empty))
        [asc ''datasets'', asc ''thai_population''] = None"
proof -
  obtain out w' where e: "write_into_hive_partition eng w = (out, w')"
    by (cases "write_into_hive_partition eng w")
  from export_trace [OF e] e
  have a: "mkdirs (trace (snd (write_into_hive_partition eng w)))
             = mkdirs (trace w) @ [[asc ''.datasets'']]"
    by simp
  have b: "write_into_hive_partition accept_all w_empty
      = (Inr (), \<lparr>db = (), fs = [[asc ''.datasets''] \<mapsto> Dir],
                  trace = [Mkdir [asc ''.datasets''], Sql copy_sql]\<rparr>)"
    by (simp add: write_into_hive_partition_def path_parts_datasets path_mkdir_def Let_def
        log_event_def w_empty_def accept_all_call)
  have c: "[asc ''datasets''] \<noteq> [asc ''.datasets'']"
    "[asc ''datasets'', asc ''thai_population''] \<noteq> [asc ''.datasets'']"
    by (simp_all add: asc_def)
  from a b c output_path_parts show ?thesis by simp
qed

end
